theory Spec2Isabelle
  imports Complex_Main
begin

section \<open>Go values\<close>

text \<open>
  A Go \<^verbatim>\<open>[]byte\<close> and a Go \<^verbatim>\<open>string\<close> are both sequences of bytes; a HOL
  \<^typ>\<open>char\<close> is one byte, so both are character lists and \<^verbatim>\<open>len\<close> is
  \<^const>\<open>length\<close>. A Go \<^verbatim>\<open>int\<close> is modelled as \<^typ>\<open>int\<close>: the code only
  compares and increments page numbers and thresholds, it never computes near the
  64-bit bounds.
\<close>

type_synonym bytes = "char list"

text \<open>
  The dynamic values a \<^verbatim>\<open>map[string]interface{}\<close> of this program holds: the
  caller's JSON schema, the request body and the decoded completion. A Go map has no
  key order and no duplicate keys; the lists below are written in the order of the
  source's literals.
\<close>

datatype jvalue =
    JNull
  | JBool bool
  | JInt int
  | JFloat real
  | JString string
  | JArray "jvalue list"
  | JObject "(string \<times> jvalue) list"

type_synonym jmap = "(string \<times> jvalue) list"

section \<open>Package types\<close>

record ExtractorConfig =
  OpenAIAPIKey :: string
  BaseURL :: string
  Model :: string
  TextModel :: string
  VisionModel :: string
  VisionEnabled :: bool
  TextThreshold :: int
  SystemPrompt :: string

text \<open>
  \<^verbatim>\<open>Schema\<close> and \<^verbatim>\<open>PDFBuffer\<close> can be \<^verbatim>\<open>nil\<close> (\<open>None\<close>), which the code
  tells apart from an empty map or slice; \<^verbatim>\<open>Temperature\<close> and \<^verbatim>\<open>MaxTokens\<close> are
  pointers.
\<close>

record ExtractionOptions =
  Schema :: "jmap option"
  PDFPath :: string
  PDFBuffer :: "bytes option"
  Temperature :: "real option"
  MaxTokens :: "int option"

record PdfPageImage =
  Page :: int
  Base64 :: string

record ParsedPdfContent =
  Type :: string
  TextContent :: string
  ImageContent :: "PdfPageImage list"

record ParsedPdf =
  Content :: ParsedPdfContent
  NumPages :: int
  Info :: jmap

text \<open>The field \<^verbatim>\<open>Model\<close> of \<^verbatim>\<open>ExtractionResult\<close> is \<open>Model_r\<close> here, and the
  field \<^verbatim>\<open>TextThreshold\<close> of \<^verbatim>\<open>ParseOptions\<close> is \<open>TextThreshold_p\<close>: the
  configuration record already has fields of these names.\<close>

record ExtractionResult =
  Data :: "jmap option"
  TokensUsed :: int
  Model_r :: string

record ParseOptions =
  TextThreshold_p :: int

section \<open>Errors\<close>

text \<open>
  The code's errors are messages, some wrapping another error (\<^verbatim>\<open>%w\<close>). Each
  constructor is one error site of the source; the names follow the taxonomy of the
  specification where it has one. Errors of the libraries are carried as their message.
  \<open>Panic\<close> is a run-time panic (a slice expression out of range).
\<close>

datatype error =
    ConfigurationError
  | MissingSource
  | SchemaNil
  | SchemaEmpty
  | SchemaValidationFailed string
  | InvalidSchema error
  | IOError string
  | InvalidPdf
  | TextExtractionError error
  | OpenPdfError string
  | NoImages
  | RenderPageError int string
  | EncodePageError int string
  | ImageConversionError error
  | ParseError error
  | VisionDisabled
  | MarshalError string
  | CreateRequestError string
  | TransportError string
  | ReadResponseError string
  | RemoteError int bytes
  | ParseResponseError string
  | EmptyCompletion
  | MalformedCompletion string
  | Panic

section \<open>Package extractor: construction\<close>

definition defaultModel :: string where
  "defaultModel = ''gpt-4o-mini''"

definition defaultBaseURL :: string where
  "defaultBaseURL = ''https://api.openai.com/v1''"

definition defaultSystemPrompt :: string where
  "defaultSystemPrompt = ''You are a helpful assistant that extracts structured data from text. Extract the requested information accurately from the provided text.''"

definition defaultVisionEnabled :: bool where
  "defaultVisionEnabled = True"

definition defaultTextThreshold :: int where
  "defaultTextThreshold = 100"

text \<open>The \<^verbatim>\<open>client\<close> field is the HTTP client; it is part of the environment
  below.\<close>

record Extractor =
  apiKey :: string
  baseURL :: string
  model :: string
  textModel :: string
  visionModel :: string
  config :: ExtractorConfig
  systemPrompt :: string

definition New :: "ExtractorConfig \<Rightarrow> error + Extractor" where
  "New config0 =
    (if OpenAIAPIKey config0 = [] then Inl ConfigurationError
     else
       let config1 = (if Model config0 = [] then config0\<lparr>Model := defaultModel\<rparr> else config0);
           config2 = (if BaseURL config1 = [] then config1\<lparr>BaseURL := defaultBaseURL\<rparr> else config1);
           config3 = (if TextThreshold config2 = 0
                      then config2\<lparr>TextThreshold := defaultTextThreshold\<rparr> else config2);
           systemPrompt' = (if SystemPrompt config3 = [] then defaultSystemPrompt
                            else SystemPrompt config3);
           textModel' = (if TextModel config3 = [] then Model config3 else TextModel config3);
           visionModel' = (if VisionModel config3 = [] then Model config3 else VisionModel config3)
       in Inr \<lparr>apiKey = OpenAIAPIKey config3,
                baseURL = BaseURL config3,
                model = Model config3,
                textModel = textModel',
                visionModel = visionModel',
                config = config3,
                systemPrompt = systemPrompt'\<rparr>)"

definition GetModel :: "Extractor \<Rightarrow> string" where
  "GetModel e = model e"

definition GetTextModel :: "Extractor \<Rightarrow> string" where
  "GetTextModel e = textModel e"

definition GetVisionModel :: "Extractor \<Rightarrow> string" where
  "GetVisionModel e = visionModel e"

section \<open>The environment\<close>

text \<open>
  The libraries and the outside world the code calls, as far as the code observes them.
  A result \<open>Inl msg\<close> is the library's error. A \<open>Document\<close> is an opened
  \<^verbatim>\<open>fitz.Document\<close>: its page count, the text of a page and the rendering of a
  page, each of which can fail.
\<close>

record Document =
  doc_NumPage :: int
  doc_Text :: "int \<Rightarrow> string + string"
  doc_Image :: "int \<Rightarrow> string + bytes"

record HttpRequest =
  req_Method :: string
  req_URL :: string
  req_ContentType :: string
  req_Authorization :: string
  req_Body :: bytes

text \<open>\<open>resp_Body\<close> is what \<^verbatim>\<open>io.ReadAll(resp.Body)\<close> returns.\<close>

record HttpResponse =
  StatusCode :: int
  resp_Body :: "string + bytes"

text \<open>
  The anonymous struct \<^verbatim>\<open>callOpenAI\<close> decodes the response into:
  \<open>Choices\<close> holds \<^verbatim>\<open>Choices[i].Message.Content\<close> for every choice,
  \<open>Usage_TotalTokens\<close> is \<^verbatim>\<open>Usage.TotalTokens\<close> and \<open>Model_c\<close> is
  \<^verbatim>\<open>Model\<close>.
\<close>

record CompletionResponse =
  Choices :: "string list"
  Usage_TotalTokens :: int
  Model_c :: string

text \<open>
  \<open>api_PDFInfo\<close> gives \<open>Inr None\<close> for a \<^verbatim>\<open>nil\<close> info and \<open>Inr (Some n)\<close>
  for an info whose \<^verbatim>\<open>PageCount\<close> is \<open>n\<close>. \<open>gojsonschema_NewSchema\<close> and
  \<open>http_NewRequest\<close> give \<open>Some msg\<close> when they fail. \<open>json_Unmarshal_response\<close>
  is \<^verbatim>\<open>json.Unmarshal\<close> into the response struct, \<open>json_Unmarshal_data\<close> is
  \<^verbatim>\<open>json.Unmarshal\<close> into a \<^verbatim>\<open>map[string]interface{}\<close> (\<open>Inr None\<close> is the
  \<^verbatim>\<open>nil\<close> map).
\<close>

record World =
  os_ReadFile :: "string \<Rightarrow> string + bytes"
  gojsonschema_NewSchema :: "jmap \<Rightarrow> string option"
  api_PDFInfo :: "bytes \<Rightarrow> string + int option"
  fitz_NewFromMemory :: "bytes \<Rightarrow> string + Document"
  png_Encode :: "bytes \<Rightarrow> string + bytes"
  base64_EncodeToString :: "bytes \<Rightarrow> string"
  json_Marshal :: "jvalue \<Rightarrow> string + bytes"
  http_NewRequest :: "string \<Rightarrow> string option"
  client_Do :: "HttpRequest \<Rightarrow> string + HttpResponse"
  json_Unmarshal_response :: "bytes \<Rightarrow> string + CompletionResponse"
  json_Unmarshal_data :: "string \<Rightarrow> string + jmap option"

text \<open>
  Every call that leaves the process is recorded, in order: a function returns its
  result together with the events it caused.
\<close>

datatype event =
    EvReadFile string
  | EvPDFInfo
  | EvNewFromMemory
  | EvText int
  | EvImage int
  | EvClose
  | EvPost string bytes

section \<open>Package schema\<close>

definition ValidateSchema :: "World \<Rightarrow> jmap option \<Rightarrow> error option" where
  "ValidateSchema w schema =
    (case schema of
       None \<Rightarrow> Some SchemaNil
     | Some m \<Rightarrow>
         if length m = 0 then Some SchemaEmpty
         else (case gojsonschema_NewSchema w m of
                 Some err \<Rightarrow> Some (SchemaValidationFailed err)
               | None \<Rightarrow> None))"

section \<open>Package parser\<close>

subsection \<open>The signature check\<close>

text \<open>
  A slice expression \<^verbatim>\<open>b[lo:hi]\<close> panics when its bounds are out of range. The
  bound is the capacity in Go; the model takes the length, so it panics at least where
  the code does.
\<close>

definition go_slice :: "'a list \<Rightarrow> nat \<Rightarrow> nat \<Rightarrow> 'a list option" where
  "go_slice xs lo hi =
    (if lo \<le> hi \<and> hi \<le> length xs then Some (take (hi - lo) (drop lo xs)) else None)"

text \<open>\<open>None\<close> is a panic.\<close>

definition isValidPdfSignature :: "bytes \<Rightarrow> bool option" where
  "isValidPdfSignature buffer =
    (if length buffer < 4 then Some False
     else (case go_slice buffer 0 4 of
             None \<Rightarrow> None
           | Some s \<Rightarrow> Some (s = ''%PDF'')))"

datatype pdf_input = PathInput string | BufferInput bytes | OtherInput

definition ValidatePdf :: "World \<Rightarrow> pdf_input \<Rightarrow> bool option \<times> event list" where
  "ValidatePdf w input =
    (case input of
       PathInput v \<Rightarrow>
         (case os_ReadFile w v of
            Inl err \<Rightarrow> (Some False, [EvReadFile v])
          | Inr data \<Rightarrow> (isValidPdfSignature data, [EvReadFile v]))
     | BufferInput v \<Rightarrow> (isValidPdfSignature v, [])
     | OtherInput \<Rightarrow> (Some False, []))"

subsection \<open>The text-sufficiency check\<close>

text \<open>
  \<^verbatim>\<open>strings.TrimSpace\<close> removes the leading and the trailing white space of a
  UTF-8 string: the six ASCII characters, and the code points U+0085, U+00A0, U+1680,
  U+2000 to U+200A, U+2028, U+2029, U+202F, U+205F and U+3000, here by their encodings.
  A byte sequence that is not the encoding of one of them is not white space.
\<close>

definition asciiSpace :: "char \<Rightarrow> bool" where
  "asciiSpace c = (c \<in> set [CHR 0x09, CHR 0x0A, CHR 0x0B, CHR 0x0C, CHR 0x0D, CHR 0x20])"

definition unicodeSpaces :: "string list" where
  "unicodeSpaces =
    [[CHR 0xC2, CHR 0x85], [CHR 0xC2, CHR 0xA0], [CHR 0xE1, CHR 0x9A, CHR 0x80],
     [CHR 0xE2, CHR 0x80, CHR 0x80], [CHR 0xE2, CHR 0x80, CHR 0x81],
     [CHR 0xE2, CHR 0x80, CHR 0x82], [CHR 0xE2, CHR 0x80, CHR 0x83],
     [CHR 0xE2, CHR 0x80, CHR 0x84], [CHR 0xE2, CHR 0x80, CHR 0x85],
     [CHR 0xE2, CHR 0x80, CHR 0x86], [CHR 0xE2, CHR 0x80, CHR 0x87],
     [CHR 0xE2, CHR 0x80, CHR 0x88], [CHR 0xE2, CHR 0x80, CHR 0x89],
     [CHR 0xE2, CHR 0x80, CHR 0x8A], [CHR 0xE2, CHR 0x80, CHR 0xA8],
     [CHR 0xE2, CHR 0x80, CHR 0xA9], [CHR 0xE2, CHR 0x80, CHR 0xAF],
     [CHR 0xE2, CHR 0x81, CHR 0x9F], [CHR 0xE3, CHR 0x80, CHR 0x80]]"

text \<open>The width in bytes of a white-space character at the start of \<open>s\<close>, \<open>0\<close> if
  there is none.\<close>

definition leadingSpace :: "string \<Rightarrow> nat" where
  "leadingSpace s =
    (case s of
       [] \<Rightarrow> 0
     | c # _ \<Rightarrow>
         if asciiSpace c then 1
         else (case find (\<lambda>u. take (length u) s = u) unicodeSpaces of
                 Some u \<Rightarrow> length u
               | None \<Rightarrow> 0))"

function TrimLeft :: "string \<Rightarrow> string" where
  "TrimLeft s = (if leadingSpace s = 0 then s else TrimLeft (drop (leadingSpace s) s))"
  by pat_completeness auto
termination
proof (relation "measure length")
  show "wf (measure length)" by simp
next
  fix s :: string
  assume "leadingSpace s \<noteq> 0"
  then have "s \<noteq> []" by (auto simp: leadingSpace_def)
  with \<open>leadingSpace s \<noteq> 0\<close> show "(drop (leadingSpace s) s, s) \<in> measure length"
    by simp
qed

text \<open>The trailing white space is the leading white space of the reversed string,
  with the encodings reversed.\<close>

definition trailingSpace :: "string \<Rightarrow> nat" where
  "trailingSpace s =
    (case rev s of
       [] \<Rightarrow> 0
     | c # _ \<Rightarrow>
         if asciiSpace c then 1
         else (case find (\<lambda>u. take (length u) (rev s) = rev u) unicodeSpaces of
                 Some u \<Rightarrow> length u
               | None \<Rightarrow> 0))"

function TrimRight :: "string \<Rightarrow> string" where
  "TrimRight s =
    (if trailingSpace s = 0 then s else TrimRight (take (length s - trailingSpace s) s))"
  by pat_completeness auto
termination
proof (relation "measure length")
  show "wf (measure length)" by simp
next
  fix s :: string
  assume "trailingSpace s \<noteq> 0"
  then have "s \<noteq> []" by (auto simp: trailingSpace_def)
  with \<open>trailingSpace s \<noteq> 0\<close>
  show "(take (length s - trailingSpace s) s, s) \<in> measure length"
    by simp
qed

definition TrimSpace :: "string \<Rightarrow> string" where
  "TrimSpace s = TrimRight (TrimLeft s)"

definition hasExtractableText :: "string \<Rightarrow> int \<Rightarrow> bool" where
  "hasExtractableText text threshold =
    (if text = [] then False
     else threshold \<le> int (length (TrimSpace text)))"

subsection \<open>Text extraction\<close>

definition getPageCount :: "World \<Rightarrow> bytes \<Rightarrow> (string + int) \<times> event list" where
  "getPageCount w buffer =
    (case api_PDFInfo w buffer of
       Inl err \<Rightarrow> (Inl err, [EvPDFInfo])
     | Inr pdfInfo \<Rightarrow>
         (case pdfInfo of
            Some pageCount \<Rightarrow>
              if pageCount > 0 then (Inr pageCount, [EvPDFInfo]) else (Inr 1, [EvPDFInfo])
          | None \<Rightarrow> (Inr 1, [EvPDFInfo])))"

text \<open>
  The loop of \<^verbatim>\<open>extractTextFromPdf\<close> over the pages \<open>pageNum, ..., numPages - 1\<close>;
  \<open>textBuilder\<close> is the text written so far and \<open>tr\<close> the events so far. A page
  whose \<^verbatim>\<open>doc.Text\<close> fails is passed over (\<^verbatim>\<open>continue\<close>).
\<close>

function textLoop ::
  "Document \<Rightarrow> int \<Rightarrow> int \<Rightarrow> string \<Rightarrow> event list \<Rightarrow> string \<times> event list" where
  "textLoop doc numPages pageNum textBuilder tr =
    (if pageNum < numPages then
       (case doc_Text doc pageNum of
          Inl err \<Rightarrow> textLoop doc numPages (pageNum + 1) textBuilder (tr @ [EvText pageNum])
        | Inr pageText \<Rightarrow>
            textLoop doc numPages (pageNum + 1)
              (textBuilder @ pageText @ [CHR 0x0A]) (tr @ [EvText pageNum]))
     else (textBuilder, tr))"
  by pat_completeness auto
termination
  by (relation "measure (\<lambda>(doc, numPages, pageNum, textBuilder, tr). nat (numPages - pageNum))")
    auto

text \<open>The error result of \<^verbatim>\<open>extractTextFromPdf\<close> is kept in the type, although
  every return statement of the source returns \<^verbatim>\<open>nil\<close> for it.\<close>

definition extractTextFromPdf ::
  "World \<Rightarrow> bytes \<Rightarrow> (error + string \<times> int \<times> jmap) \<times> event list" where
  "extractTextFromPdf w buffer =
    (let (r, tr0) = getPageCount w buffer;
         numPages = (case r of Inl err \<Rightarrow> 1 | Inr n \<Rightarrow> n)
     in case fitz_NewFromMemory w buffer of
          Inl err \<Rightarrow> (Inr ([], numPages, []), tr0 @ [EvNewFromMemory])
        | Inr doc \<Rightarrow>
            (let (text, tr1) = textLoop doc numPages 0 [] []
             in (Inr (text, numPages, []), tr0 @ [EvNewFromMemory] @ tr1 @ [EvClose])))"

subsection \<open>Conversion to images\<close>

function imageLoop ::
  "World \<Rightarrow> Document \<Rightarrow> int \<Rightarrow> int \<Rightarrow> PdfPageImage list \<Rightarrow> event list
    \<Rightarrow> (error + PdfPageImage list) \<times> event list" where
  "imageLoop w doc numPages pageNum images tr =
    (if pageNum < numPages then
       (case doc_Image doc pageNum of
          Inl err \<Rightarrow> (Inl (RenderPageError (pageNum + 1) err), tr @ [EvImage pageNum])
        | Inr img \<Rightarrow>
            (case png_Encode w img of
               Inl err \<Rightarrow> (Inl (EncodePageError (pageNum + 1) err), tr @ [EvImage pageNum])
             | Inr buf \<Rightarrow>
                 imageLoop w doc numPages (pageNum + 1)
                   (images @ [\<lparr>Page = pageNum + 1, Base64 = base64_EncodeToString w buf\<rparr>])
                   (tr @ [EvImage pageNum])))
     else (Inr images, tr))"
  by pat_completeness auto
termination
  by (relation "measure (\<lambda>(w, doc, numPages, pageNum, images, tr). nat (numPages - pageNum))")
    auto

definition convertPdfToImages ::
  "World \<Rightarrow> bytes \<Rightarrow> (error + PdfPageImage list) \<times> event list" where
  "convertPdfToImages w buffer =
    (case fitz_NewFromMemory w buffer of
       Inl err \<Rightarrow> (Inl (OpenPdfError err), [EvNewFromMemory])
     | Inr doc \<Rightarrow>
         (let numPages = doc_NumPage doc
          in if numPages = 0 then (Inl NoImages, [EvNewFromMemory, EvClose])
             else (let (r, tr) = imageLoop w doc numPages 0 [] []
                   in (r, [EvNewFromMemory] @ tr @ [EvClose]))))"

subsection \<open>Parsing\<close>

text \<open>The threshold \<^verbatim>\<open>ParsePdfFromBuffer\<close> decides with; \<open>None\<close> is the
  \<^verbatim>\<open>nil\<close> options pointer.\<close>

definition parseThreshold :: "ParseOptions option \<Rightarrow> int" where
  "parseThreshold options =
    (case options of
       None \<Rightarrow> defaultTextThreshold
     | Some po \<Rightarrow> if TextThreshold_p po > 0 then TextThreshold_p po else defaultTextThreshold)"

definition ParsePdfFromBuffer ::
  "World \<Rightarrow> bytes \<Rightarrow> ParseOptions option \<Rightarrow> (error + ParsedPdf) \<times> event list" where
  "ParsePdfFromBuffer w buffer options =
    (case isValidPdfSignature buffer of
       None \<Rightarrow> (Inl Panic, [])
     | Some False \<Rightarrow> (Inl InvalidPdf, [])
     | Some True \<Rightarrow>
         (let threshold = parseThreshold options;
              (r, tr) = extractTextFromPdf w buffer
          in case r of
               Inl err \<Rightarrow> (Inl (TextExtractionError err), tr)
             | Inr (text, numPages, info) \<Rightarrow>
                 if hasExtractableText text threshold then
                   (Inr \<lparr>Content = \<lparr>Type = ''text'', TextContent = text, ImageContent = []\<rparr>,
                         NumPages = numPages, Info = info\<rparr>, tr)
                 else
                   (let (r2, tr2) = convertPdfToImages w buffer
                    in case r2 of
                         Inl err \<Rightarrow> (Inl (ImageConversionError err), tr @ tr2)
                       | Inr images \<Rightarrow>
                           (Inr \<lparr>Content = \<lparr>Type = ''images'', TextContent = [],
                                              ImageContent = images\<rparr>,
                                 NumPages = numPages, Info = info\<rparr>, tr @ tr2))))"

definition ParsePdfFromPath ::
  "World \<Rightarrow> string \<Rightarrow> ParseOptions option \<Rightarrow> (error + ParsedPdf) \<times> event list" where
  "ParsePdfFromPath w pdfPath options =
    (case os_ReadFile w pdfPath of
       Inl err \<Rightarrow> (Inl (IOError err), [EvReadFile pdfPath])
     | Inr data \<Rightarrow>
         (let (r, tr) = ParsePdfFromBuffer w data options
          in (r, EvReadFile pdfPath # tr)))"

section \<open>Package extractor: extraction\<close>

definition StatusOK :: int where
  "StatusOK = 200"

text \<open>A \<^verbatim>\<open>nil\<close> map is the JSON value \<^verbatim>\<open>null\<close>.\<close>

definition jmapValue :: "jmap option \<Rightarrow> jvalue" where
  "jmapValue m = (case m of None \<Rightarrow> JNull | Some kvs \<Rightarrow> JObject kvs)"

subsection \<open>The completion client\<close>

text \<open>What \<^verbatim>\<open>callOpenAI\<close> does with a response it has received (from reading the
  body to the result). The deferred closing of the body only prints a message when it
  fails; it is not part of the model.\<close>

definition handleResponse :: "World \<Rightarrow> HttpResponse \<Rightarrow> error + ExtractionResult" where
  "handleResponse w resp =
    (case resp_Body resp of
       Inl err \<Rightarrow> Inl (ReadResponseError err)
     | Inr body \<Rightarrow>
         if StatusCode resp \<noteq> StatusOK then Inl (RemoteError (StatusCode resp) body)
         else
           (case json_Unmarshal_response w body of
              Inl err \<Rightarrow> Inl (ParseResponseError err)
            | Inr response \<Rightarrow>
                (case Choices response of
                   [] \<Rightarrow> Inl EmptyCompletion
                 | c # _ \<Rightarrow>
                     if c = [] then Inl EmptyCompletion
                     else
                       (case json_Unmarshal_data w c of
                          Inl err \<Rightarrow> Inl (MalformedCompletion err)
                        | Inr extractedData \<Rightarrow>
                            Inr \<lparr>Data = extractedData,
                                 TokensUsed = Usage_TotalTokens response,
                                 Model_r = Model_c response\<rparr>))))"

definition callOpenAI ::
  "World \<Rightarrow> Extractor \<Rightarrow> jvalue \<Rightarrow> (error + ExtractionResult) \<times> event list" where
  "callOpenAI w e requestBody =
    (case json_Marshal w requestBody of
       Inl err \<Rightarrow> (Inl (MarshalError err), [])
     | Inr jsonData \<Rightarrow>
         (let url = baseURL e @ ''/chat/completions''
          in case http_NewRequest w url of
               Some err \<Rightarrow> (Inl (CreateRequestError err), [])
             | None \<Rightarrow>
                 (let req = \<lparr>req_Method = ''POST'', req_URL = url,
                             req_ContentType = ''application/json'',
                             req_Authorization = ''Bearer '' @ apiKey e,
                             req_Body = jsonData\<rparr>
                  in case client_Do w req of
                       Inl err \<Rightarrow> (Inl (TransportError err), [EvPost url jsonData])
                     | Inr resp \<Rightarrow> (handleResponse w resp, [EvPost url jsonData]))))"

subsection \<open>The request bodies\<close>

text \<open>The map \<^verbatim>\<open>requestBody\<close> that \<^verbatim>\<open>extractFromText\<close> builds and passes to
  \<^verbatim>\<open>callOpenAI\<close>.\<close>

definition extractFromText_requestBody ::
  "Extractor \<Rightarrow> string \<Rightarrow> jmap option \<Rightarrow> ExtractionOptions \<Rightarrow> jvalue" where
  "extractFromText_requestBody e text schemaData options =
    (let messages0 =
           (if systemPrompt e \<noteq> []
            then [JObject [(''role'', JString ''system''),
                           (''content'', JString (systemPrompt e))]]
            else []);
         messages = messages0 @
           [JObject [(''role'', JString ''user''),
                     (''content'', JString
                        (''Extract the following information from this text:'' @
                         [CHR 0x0A, CHR 0x0A] @ text))]];
         requestBody0 =
           [(''model'', JString (textModel e)),
            (''messages'', JArray messages),
            (''response_format'', JObject
               [(''type'', JString ''json_schema''),
                (''json_schema'', JObject
                   [(''name'', JString ''extracted_data''),
                    (''strict'', JBool True),
                    (''schema'', jmapValue schemaData)])])];
         requestBody1 = requestBody0 @
           [(''temperature'',
             JFloat (case Temperature options of Some t \<Rightarrow> t | None \<Rightarrow> 0))];
         requestBody2 =
           (case MaxTokens options of
              Some n \<Rightarrow> requestBody1 @ [(''max_tokens'', JInt n)]
            | None \<Rightarrow> requestBody1)
     in JObject requestBody2)"

definition extractFromText ::
  "World \<Rightarrow> Extractor \<Rightarrow> string \<Rightarrow> jmap option \<Rightarrow> ExtractionOptions
    \<Rightarrow> (error + ExtractionResult) \<times> event list" where
  "extractFromText w e text schemaData options =
    callOpenAI w e (extractFromText_requestBody e text schemaData options)"

text \<open>The map \<^verbatim>\<open>requestBody\<close> that \<^verbatim>\<open>extractFromImages\<close> builds once vision
  is known to be enabled.\<close>

definition extractFromImages_requestBody ::
  "Extractor \<Rightarrow> PdfPageImage list \<Rightarrow> jmap option \<Rightarrow> ExtractionOptions \<Rightarrow> jvalue" where
  "extractFromImages_requestBody e images schemaData options =
    (let content0 =
           [JObject [(''type'', JString ''text''),
                     (''text'', JString
                        ''Extract the following structured information from these document pages:'')]];
         content = content0 @
           map (\<lambda>img. JObject
                  [(''type'', JString ''image_url''),
                   (''image_url'', JObject
                      [(''url'', JString (''data:image/png;base64,'' @ Base64 img))])])
               images;
         messages0 =
           (if systemPrompt e \<noteq> []
            then [JObject [(''role'', JString ''system''),
                           (''content'', JString (systemPrompt e))]]
            else []);
         messages = messages0 @
           [JObject [(''role'', JString ''user''), (''content'', JArray content)]];
         requestBody0 =
           [(''model'', JString (visionModel e)),
            (''messages'', JArray messages),
            (''response_format'', JObject
               [(''type'', JString ''json_schema''),
                (''json_schema'', JObject
                   [(''name'', JString ''extracted_data''),
                    (''strict'', JBool True),
                    (''schema'', jmapValue schemaData)])])];
         requestBody1 = requestBody0 @
           [(''temperature'',
             JFloat (case Temperature options of Some t \<Rightarrow> t | None \<Rightarrow> 0))];
         requestBody2 =
           (case MaxTokens options of
              Some n \<Rightarrow> requestBody1 @ [(''max_tokens'', JInt n)]
            | None \<Rightarrow> requestBody1)
     in JObject requestBody2)"

definition extractFromImages ::
  "World \<Rightarrow> Extractor \<Rightarrow> PdfPageImage list \<Rightarrow> jmap option \<Rightarrow> ExtractionOptions
    \<Rightarrow> (error + ExtractionResult) \<times> event list" where
  "extractFromImages w e images schemaData options =
    (if \<not> VisionEnabled (config e) then (Inl VisionDisabled, [])
     else callOpenAI w e (extractFromImages_requestBody e images schemaData options))"

subsection \<open>The orchestrator\<close>

text \<open>A \<^verbatim>\<open>nil\<close> slice reads as the empty slice.\<close>

definition sliceBytes :: "bytes option \<Rightarrow> bytes" where
  "sliceBytes b = (case b of None \<Rightarrow> [] | Some bs \<Rightarrow> bs)"

text \<open>The step \<^verbatim>\<open>// Parse the PDF\<close> of \<^verbatim>\<open>Extract\<close>: the parse options and the
  choice of the parser.\<close>

definition Extract_parse ::
  "World \<Rightarrow> Extractor \<Rightarrow> ExtractionOptions \<Rightarrow> (error + ParsedPdf) \<times> event list" where
  "Extract_parse w e options =
    (let parseOptions = Some \<lparr>TextThreshold_p = TextThreshold (config e)\<rparr>
     in if PDFPath options \<noteq> [] then ParsePdfFromPath w (PDFPath options) parseOptions
        else ParsePdfFromBuffer w (sliceBytes (PDFBuffer options)) parseOptions)"

definition Extract ::
  "World \<Rightarrow> Extractor \<Rightarrow> ExtractionOptions \<Rightarrow> (error + ExtractionResult) \<times> event list" where
  "Extract w e options =
    (if PDFPath options = [] \<and> PDFBuffer options = None then (Inl MissingSource, [])
     else
       (case ValidateSchema w (Schema options) of
          Some err \<Rightarrow> (Inl (InvalidSchema err), [])
        | None \<Rightarrow>
            (let (r, tr) = Extract_parse w e options
             in case r of
                  Inl err \<Rightarrow> (Inl (ParseError err), tr)
                | Inr parsedPdf \<Rightarrow>
                    (let (r2, tr2) =
                           (if Type (Content parsedPdf) = ''text''
                            then extractFromText w e (TextContent (Content parsedPdf))
                                   (Schema options) options
                            else extractFromImages w e (ImageContent (Content parsedPdf))
                                   (Schema options) options)
                     in (r2, tr @ tr2)))))"

section \<open>Observations\<close>

text \<open>What the properties below read off a trace or a request body.\<close>

fun isPost :: "event \<Rightarrow> bool" where
  "isPost (EvPost url body) = True"
| "isPost ev = False"

text \<open>The array under \<^verbatim>\<open>"messages"\<close> of a request body, and its entries whose
  \<^verbatim>\<open>"role"\<close> is \<^verbatim>\<open>"system"\<close>.\<close>

fun messagesOf :: "jvalue \<Rightarrow> jvalue list" where
  "messagesOf (JObject kvs) =
    (case map_of kvs ''messages'' of Some (JArray ms) \<Rightarrow> ms | _ \<Rightarrow> [])"
| "messagesOf v = []"

fun isSystemMessage :: "jvalue \<Rightarrow> bool" where
  "isSystemMessage (JObject kvs) = (map_of kvs ''role'' = Some (JString ''system''))"
| "isSystemMessage v = False"

definition systemMessages :: "jvalue \<Rightarrow> jvalue list" where
  "systemMessages requestBody = filter isSystemMessage (messagesOf requestBody)"

text \<open>What one page adds to the text: nothing when its extraction fails, its text
  and a newline otherwise.\<close>

definition pageOutput :: "Document \<Rightarrow> int \<Rightarrow> string" where
  "pageOutput doc p = (case doc_Text doc p of Inl err \<Rightarrow> [] | Inr t \<Rightarrow> t @ [CHR 0x0A])"



text \<open>The specification counts the characters of the trimmed text. A character of a
  UTF-8 text is a code point: every byte but the continuation bytes (\<^verbatim>\<open>10xxxxxx\<close>)
  starts one.\<close>

definition isContinuation :: "char \<Rightarrow> bool" where
  "isContinuation c = (128 \<le> (of_char c :: nat) \<and> (of_char c :: nat) < 192)"

definition charCount :: "string \<Rightarrow> nat" where
  "charCount s = length (filter (\<lambda>c. \<not> isContinuation c) s)"

text \<open>The specification's success statuses: the error taxonomy calls the failing ones
  ``non-2xx''.\<close>

definition is2xx :: "int \<Rightarrow> bool" where
  "is2xx status = (200 \<le> status \<and> status < 300)"

section \<open>Example inputs\<close>

text \<open>A configuration in which the caller sets the API key and nothing else: every
  other field has the zero value of its type.\<close>

definition ex_config :: ExtractorConfig where
  "ex_config = \<lparr>OpenAIAPIKey = ''sk-test'', BaseURL = [], Model = [], TextModel = [],
                 VisionModel = [], VisionEnabled = False, TextThreshold = 0,
                 SystemPrompt = []\<rparr>"

definition ex_extractor :: Extractor where
  "ex_extractor =
    \<lparr>apiKey = ''sk-test'', baseURL = defaultBaseURL, model = defaultModel,
     textModel = defaultModel, visionModel = defaultModel,
     config = \<lparr>OpenAIAPIKey = ''sk-test'', BaseURL = defaultBaseURL, Model = defaultModel,
               TextModel = [], VisionModel = [], VisionEnabled = False,
               TextThreshold = defaultTextThreshold, SystemPrompt = []\<rparr>,
     systemPrompt = defaultSystemPrompt\<rparr>"

definition ex_schema :: "jmap option" where
  "ex_schema = Some [(''type'', JString ''object'')]"

text \<open>A document of three pages: the text of the second page cannot be extracted, and
  no page can be rendered.\<close>

definition ex_document :: Document where
  "ex_document =
    \<lparr>doc_NumPage = 3,
     doc_Text = (\<lambda>p. if p = 0 then Inr ''a'' else if p = 2 then Inr ''b''
                      else Inl ''cannot extract text''),
     doc_Image = (\<lambda>p. Inl ''cannot render'')\<rparr>"

text \<open>The same pages, every one of which renders.\<close>

definition ex_scan :: Document where
  "ex_scan = ex_document\<lparr>doc_Image := (\<lambda>p. Inr ''pixels'')\<rparr>"

text \<open>The completion \<^verbatim>\<open>{"a":1}\<close>.\<close>

definition ex_content :: string where
  "ex_content = [CHR 0x7B, CHR 0x22, CHR ''a'', CHR 0x22, CHR 0x3A, CHR ''1'', CHR 0x7D]"

definition ex_response :: HttpResponse where
  "ex_response = \<lparr>StatusCode = 200, resp_Body = Inr ''body''\<rparr>"

text \<open>A world with one file, \<^verbatim>\<open>doc.pdf\<close>, which is not a PDF; every buffer opens as
  \<open>ex_document\<close>, and the endpoint answers every request with the completion above,
  42 tokens and the model name \<^verbatim>\<open>m1\<close>.\<close>

definition ex_world :: World where
  "ex_world =
    \<lparr>os_ReadFile = (\<lambda>p. if p = ''doc.pdf'' then Inr ''NOT A PDF'' else Inl ''no such file''),
     gojsonschema_NewSchema = (\<lambda>m. None),
     api_PDFInfo = (\<lambda>b. Inr (Some 3)),
     fitz_NewFromMemory = (\<lambda>b. Inr ex_document),
     png_Encode = (\<lambda>img. Inr img),
     base64_EncodeToString = (\<lambda>b. b),
     json_Marshal = (\<lambda>v. Inr ''request''),
     http_NewRequest = (\<lambda>u. None),
     client_Do = (\<lambda>r. Inr ex_response),
     json_Unmarshal_response =
       (\<lambda>b. Inr \<lparr>Choices = [ex_content], Usage_TotalTokens = 42, Model_c = ''m1''\<rparr>),
     json_Unmarshal_data = (\<lambda>c. Inr (Some [(''a'', JInt 1)]))\<rparr>"

definition ex_pdf :: bytes where
  "ex_pdf = ''%PDF-1.4''"

text \<open>A request with a buffer and no path, and a request with both.\<close>

definition ex_options :: ExtractionOptions where
  "ex_options = \<lparr>Schema = ex_schema, PDFPath = [], PDFBuffer = Some ex_pdf,
                  Temperature = None, MaxTokens = None\<rparr>"


text \<open>A configuration with only the key and \<^verbatim>\<open>Model\<close> set, one with \<^verbatim>\<open>TextModel\<close>
  set as well, and one with a negative threshold.\<close>

definition ex_config_model :: ExtractorConfig where
  "ex_config_model = ex_config\<lparr>Model := ''gpt-4o''\<rparr>"

definition ex_config_text :: ExtractorConfig where
  "ex_config_text = ex_config\<lparr>Model := ''gpt-4o'', TextModel := ''gpt-4o-mini''\<rparr>"

definition ex_config_negative :: ExtractorConfig where
  "ex_config_negative = ex_config\<lparr>TextThreshold := - 5\<rparr>"

text \<open>The world in which every page renders, the extractor with vision enabled, and
  one page image.\<close>

definition ex_world_scan :: World where
  "ex_world_scan = ex_world\<lparr>fitz_NewFromMemory := (\<lambda>b. Inr ex_scan)\<rparr>"


definition ex_images :: "PdfPageImage list" where
  "ex_images = [\<lparr>Page = 1, Base64 = ''cGl4ZWxz''\<rparr>]"

text \<open>Endpoints that answer with the status 500, with no choice, and with a content
  that does not decode.\<close>

definition ex_world_500 :: World where
  "ex_world_500 =
     ex_world\<lparr>client_Do := (\<lambda>r. Inr \<lparr>StatusCode = 500, resp_Body = Inr ''overloaded''\<rparr>)\<rparr>"

definition ex_world_empty :: World where
  "ex_world_empty =
     ex_world\<lparr>json_Unmarshal_response :=
       (\<lambda>b. Inr \<lparr>Choices = [], Usage_TotalTokens = 0, Model_c = ''m1''\<rparr>)\<rparr>"

definition ex_world_malformed :: World where
  "ex_world_malformed =
     ex_world\<lparr>json_Unmarshal_data := (\<lambda>c. Inl ''unexpected end of JSON input'')\<rparr>"




text \<open>Three pages of forty letters each: enough text for the default threshold.\<close>

definition ex_long :: Document where
  "ex_long = ex_scan\<lparr>doc_Text := (\<lambda>p. Inr (replicate 40 (CHR ''x'')))\<rparr>"

definition ex_world_long :: World where
  "ex_world_long = ex_world\<lparr>fitz_NewFromMemory := (\<lambda>b. Inr ex_long)\<rparr>"

definition ex_long_text :: string where
  "ex_long_text = concat (replicate 3 (replicate 40 (CHR ''x'') @ [CHR 0x0A]))"

text \<open>Fifty letters \<^verbatim>\<open>U+00E9\<close>, two bytes each.\<close>

definition ex_accents :: string where
  "ex_accents = concat (replicate 50 [CHR 0xC3, CHR 0xA9])"

text \<open>Endpoints that answer a valid completion with the status 201, a status 500 whose
  body cannot be read, and a body that does not decode; and the request body of the
  examples.\<close>

definition ex_world_201 :: World where
  "ex_world_201 =
     ex_world\<lparr>client_Do := (\<lambda>r. Inr \<lparr>StatusCode = 201, resp_Body = Inr ''body''\<rparr>)\<rparr>"

definition ex_world_unread :: World where
  "ex_world_unread =
     ex_world\<lparr>client_Do :=
       (\<lambda>r. Inr \<lparr>StatusCode = 500, resp_Body = Inl ''unexpected EOF''\<rparr>)\<rparr>"

definition ex_world_envelope :: World where
  "ex_world_envelope =
     ex_world\<lparr>json_Unmarshal_response := (\<lambda>b. Inl ''invalid character'')\<rparr>"

definition ex_requestBody :: jvalue where
  "ex_requestBody = extractFromText_requestBody ex_extractor ''hello'' ex_schema ex_options"

section \<open>Auxiliary facts\<close>

declare textLoop.simps [simp del]
declare imageLoop.simps [simp del]
declare TrimLeft.simps [simp del]
declare TrimRight.simps [simp del]

subsection \<open>The page loop\<close>

lemma textLoop_eq:
  "textLoop doc n p tb tr =
     (tb @ concat (map (pageOutput doc) [p..n - 1]), tr @ map EvText [p..n - 1])"
proof (induction doc n p tb tr rule: textLoop.induct)
  case (1 doc numPages pageNum textBuilder tr)
  show ?case
  proof (cases "pageNum < numPages")
    case True
    then have up: "[pageNum..numPages - 1] = pageNum # [pageNum + 1..numPages - 1]"
      by (simp add: upto_rec1)
    show ?thesis
    proof (cases "doc_Text doc pageNum")
      case (Inl err)
      then have "pageOutput doc pageNum = []" by (simp add: pageOutput_def)
      with True Inl "1.IH"(1)[OF True Inl] show ?thesis
        by (subst textLoop.simps) (simp add: up)
    next
      case (Inr pageText)
      then have "pageOutput doc pageNum = pageText @ [CHR 0x0A]" by (simp add: pageOutput_def)
      with True Inr "1.IH"(2)[OF True Inr] show ?thesis
        by (subst textLoop.simps) (simp add: up)
    qed
  next
    case False
    then show ?thesis by (subst textLoop.simps) simp
  qed
qed



subsection \<open>The parser issues no request\<close>

lemma imageLoop_posts:
  "filter isPost (snd (imageLoop w doc n p images tr)) = filter isPost tr"
proof (induction w doc n p images tr rule: imageLoop.induct)
  case (1 w doc numPages pageNum images tr)
  show ?case
  proof (cases "pageNum < numPages")
    case True
    show ?thesis
    proof (cases "doc_Image doc pageNum")
      case (Inl err)
      with True show ?thesis by (subst imageLoop.simps) simp
    next
      case (Inr img)
      show ?thesis
      proof (cases "png_Encode w img")
        case (Inl err)
        with True Inr show ?thesis by (subst imageLoop.simps) simp
      next
        case (Inr buf)
        with True \<open>doc_Image doc pageNum = Inr img\<close>
          "1.IH"[OF True \<open>doc_Image doc pageNum = Inr img\<close> Inr]
        show ?thesis by (subst imageLoop.simps) simp
      qed
    qed
  next
    case False
    then show ?thesis by (subst imageLoop.simps) simp
  qed
qed

lemma imageLoop_postsD:
  "imageLoop w doc n p images tr = (r, tr') \<Longrightarrow> filter isPost tr' = filter isPost tr"
  using imageLoop_posts[of w doc n p images tr] by simp

lemma getPageCount_postsD: "getPageCount w buffer = (r, tr) \<Longrightarrow> filter isPost tr = []"
  by (auto simp: getPageCount_def split: sum.splits option.splits if_splits)

lemma extractTextFromPdf_postsD:
  "extractTextFromPdf w buffer = (r, tr) \<Longrightarrow> filter isPost tr = []"
  by (auto simp: extractTextFromPdf_def textLoop_eq filter_map comp_def
      split: sum.splits prod.splits dest: getPageCount_postsD)

lemma convertPdfToImages_postsD:
  "convertPdfToImages w buffer = (r, tr) \<Longrightarrow> filter isPost tr = []"
  by (auto simp: convertPdfToImages_def Let_def
      split: sum.splits prod.splits if_splits dest: imageLoop_postsD)

lemma ParsePdfFromBuffer_postsD:
  "ParsePdfFromBuffer w buffer options = (r, tr) \<Longrightarrow> filter isPost tr = []"
  by (auto simp: ParsePdfFromBuffer_def Let_def
      split: option.splits bool.splits sum.splits prod.splits if_splits
      dest: extractTextFromPdf_postsD convertPdfToImages_postsD)

lemma ParsePdfFromPath_postsD:
  "ParsePdfFromPath w pdfPath options = (r, tr) \<Longrightarrow> filter isPost tr = []"
  by (auto simp: ParsePdfFromPath_def split: sum.splits prod.splits
      dest: ParsePdfFromBuffer_postsD)

lemma Extract_parse_postsD:
  "Extract_parse w e options = (r, tr) \<Longrightarrow> filter isPost tr = []"
  by (auto simp: Extract_parse_def Let_def split: if_splits
      dest: ParsePdfFromPath_postsD ParsePdfFromBuffer_postsD)

subsection \<open>Construction and thresholds\<close>

lemma New_ex_config: "New ex_config = Inr ex_extractor"
  by (simp add: New_def ex_config_def ex_extractor_def Let_def)

lemma New_TextThreshold:
  "New c = Inr e \<Longrightarrow>
     TextThreshold (config e) = (if TextThreshold c = 0 then 100 else TextThreshold c)"
  by (auto simp: New_def Let_def defaultTextThreshold_def split: if_splits)

lemma parseThreshold_nonpositive:
  "TextThreshold_p po \<le> 0 \<Longrightarrow> parseThreshold (Some po) = 100"
  by (simp add: parseThreshold_def defaultTextThreshold_def)

lemma parseThreshold_100: "parseThreshold (Some \<lparr>TextThreshold_p = 100\<rparr>) = 100"
  by (simp add: parseThreshold_def)

text \<open>The parsers read their options only through \<open>parseThreshold\<close>.\<close>

lemma ParsePdfFromBuffer_cong:
  assumes "parseThreshold o1 = parseThreshold o2"
  shows "ParsePdfFromBuffer w buffer o1 = ParsePdfFromBuffer w buffer o2"
  unfolding ParsePdfFromBuffer_def assms ..

lemma ParsePdfFromPath_cong:
  assumes "parseThreshold o1 = parseThreshold o2"
  shows "ParsePdfFromPath w pdfPath o1 = ParsePdfFromPath w pdfPath o2"
  unfolding ParsePdfFromPath_def ParsePdfFromBuffer_cong[OF assms] ..

lemma Extract_parse_cong:
  assumes "parseThreshold (Some \<lparr>TextThreshold_p = TextThreshold (config e)\<rparr>) =
           parseThreshold (Some \<lparr>TextThreshold_p = TextThreshold (config e')\<rparr>)"
  shows "Extract_parse w e options = Extract_parse w e' options"
  unfolding Extract_parse_def Let_def
    ParsePdfFromPath_cong[OF assms] ParsePdfFromBuffer_cong[OF assms] ..

subsection \<open>Signature and trimming\<close>

lemma isValidPdfSignature_eq:
  "isValidPdfSignature buffer = Some (4 \<le> length buffer \<and> take 4 buffer = ''%PDF'')"
  by (simp add: isValidPdfSignature_def go_slice_def)

lemma TrimSpace_Nil: "TrimSpace [] = []"
  by code_simp

subsection \<open>The examples, evaluated\<close>

lemma ex_text:
  "extractTextFromPdf ex_world ex_pdf =
     (Inr ([CHR ''a'', CHR 0x0A, CHR ''b'', CHR 0x0A], 3, []),
      [EvPDFInfo, EvNewFromMemory, EvText 0, EvText 1, EvText 2, EvClose])"
  by code_simp

lemma ex_Extract_render_fails:
  "Extract ex_world ex_extractor ex_options =
     (Inl (ParseError (ImageConversionError (RenderPageError 1 ''cannot render''))),
      [EvPDFInfo, EvNewFromMemory, EvText 0, EvText 1, EvText 2, EvClose,
       EvNewFromMemory, EvImage 0, EvClose])"
  by code_simp

lemma ex_Extract_scan_disabled:
  "Extract ex_world_scan ex_extractor ex_options =
     (Inl VisionDisabled,
      [EvPDFInfo, EvNewFromMemory, EvText 0, EvText 1, EvText 2, EvClose,
       EvNewFromMemory, EvImage 0, EvImage 1, EvImage 2, EvClose])"
  by code_simp



lemma ex_mode_vision:
  "\<not> hasExtractableText [CHR ''a'', CHR 0x0A, CHR ''b'', CHR 0x0A]
        (parseThreshold (Some \<lparr>TextThreshold_p = TextThreshold (config ex_extractor)\<rparr>))"
  by code_simp

lemma ex_parse_render_fails:
  "Extract_parse ex_world ex_extractor ex_options =
     (Inl (ImageConversionError (RenderPageError 1 ''cannot render'')),
      [EvPDFInfo, EvNewFromMemory, EvText 0, EvText 1, EvText 2, EvClose,
       EvNewFromMemory, EvImage 0, EvClose])"
  by code_simp

lemma ex_parse_scan:
  "Extract_parse ex_world_scan ex_extractor ex_options =
     (Inr \<lparr>Content = \<lparr>Type = ''images'', TextContent = [],
                      ImageContent = [\<lparr>Page = 1, Base64 = ''pixels''\<rparr>,
                                      \<lparr>Page = 2, Base64 = ''pixels''\<rparr>,
                                      \<lparr>Page = 3, Base64 = ''pixels''\<rparr>]\<rparr>,
           NumPages = 3, Info = []\<rparr>,
      [EvPDFInfo, EvNewFromMemory, EvText 0, EvText 1, EvText 2, EvClose,
       EvNewFromMemory, EvImage 0, EvImage 1, EvImage 2, EvClose])"
  by code_simp

subsection \<open>System messages\<close>

lemma systemMessages_text:
  "systemMessages (extractFromText_requestBody e text schemaData options) =
     (if systemPrompt e \<noteq> []
      then [JObject [(''role'', JString ''system''), (''content'', JString (systemPrompt e))]]
      else [])"
  by (simp add: systemMessages_def extractFromText_requestBody_def Let_def
      split: option.splits)

lemma systemMessages_images:
  "systemMessages (extractFromImages_requestBody e images schemaData options) =
     (if systemPrompt e \<noteq> []
      then [JObject [(''role'', JString ''system''), (''content'', JString (systemPrompt e))]]
      else [])"
  by (simp add: systemMessages_def extractFromImages_requestBody_def Let_def
      split: option.splits)

lemma messagesOf_text:
  "messagesOf (extractFromText_requestBody e text schemaData options) =
     (if systemPrompt e \<noteq> []
      then [JObject [(''role'', JString ''system''), (''content'', JString (systemPrompt e))]]
      else []) @
     [JObject [(''role'', JString ''user''),
               (''content'', JString (''Extract the following information from this text:'' @
                                      [CHR 0x0A, CHR 0x0A] @ text))]]"
  by (simp add: extractFromText_requestBody_def Let_def split: option.splits)

lemma messagesOf_images:
  "\<exists>content. messagesOf (extractFromImages_requestBody e images schemaData options) =
     (if systemPrompt e \<noteq> []
      then [JObject [(''role'', JString ''system''), (''content'', JString (systemPrompt e))]]
      else []) @
     [JObject [(''role'', JString ''user''), (''content'', JArray content)]]"
  by (simp add: extractFromImages_requestBody_def Let_def split: option.splits)

lemma New_systemPrompt:
  "New c = Inr e \<Longrightarrow>
     systemPrompt e = (if SystemPrompt c = [] then defaultSystemPrompt else SystemPrompt c)"
  by (auto simp: New_def Let_def split: if_splits)

lemma defaultSystemPrompt_nonempty: "defaultSystemPrompt \<noteq> []"
  by (simp add: defaultSystemPrompt_def)

subsection \<open>The request bodies do not read the buffer\<close>



subsection \<open>The mode decision of the parser\<close>

lemma ParsePdfFromBuffer_decides:
  assumes "isValidPdfSignature buffer = Some True"
    and "fst (extractTextFromPdf w buffer) = Inr (text, numPages, info)"
  shows "fst (ParsePdfFromBuffer w buffer options) =
     (if hasExtractableText text (parseThreshold options)
      then Inr \<lparr>Content = \<lparr>Type = ''text'', TextContent = text, ImageContent = []\<rparr>,
                NumPages = numPages, Info = info\<rparr>
      else (case fst (convertPdfToImages w buffer) of
              Inl err \<Rightarrow> Inl (ImageConversionError err)
            | Inr images \<Rightarrow>
                Inr \<lparr>Content = \<lparr>Type = ''images'', TextContent = [], ImageContent = images\<rparr>,
                     NumPages = numPages, Info = info\<rparr>))"
  using assms
  by (auto simp: ParsePdfFromBuffer_def Let_def split: prod.splits sum.splits)

lemma New_threshold_nonpositive:
  "New c = Inr e \<Longrightarrow> TextThreshold c \<le> 0 \<Longrightarrow>
     parseThreshold (Some \<lparr>TextThreshold_p = TextThreshold (config e)\<rparr>) = 100"
  using New_TextThreshold[of c e]
  by (auto simp: parseThreshold_def defaultTextThreshold_def split: if_splits)

lemma ex_long_facts:
  "fst (extractTextFromPdf ex_world_long ex_pdf) = Inr (ex_long_text, 3, [])"
  "hasExtractableText ex_long_text 100"
  "\<not> hasExtractableText [CHR ''a'', CHR 0x0A, CHR ''b'', CHR 0x0A] 100"
  "hasExtractableText [CHR ''a'', CHR 0x0A, CHR ''b'', CHR 0x0A] (- 5)"
  "fst (convertPdfToImages ex_world ex_pdf) = Inl (RenderPageError 1 ''cannot render'')"
  by code_simp+

subsection \<open>Trimming keeps a part of the text\<close>

lemma set_TrimLeft: "set (TrimLeft s) \<subseteq> set s"
proof (induction s rule: TrimLeft.induct)
  case (1 s)
  show ?case
  proof (cases "leadingSpace s = 0")
    case True
    then show ?thesis by (subst TrimLeft.simps) simp
  next
    case False
    have "set (TrimLeft (drop (leadingSpace s) s)) \<subseteq> set (drop (leadingSpace s) s)"
      using "1.IH"[OF False] .
    also have "\<dots> \<subseteq> set s" by (rule set_drop_subset)
    finally show ?thesis using False by (subst TrimLeft.simps) simp
  qed
qed

lemma set_TrimRight: "set (TrimRight s) \<subseteq> set s"
proof (induction s rule: TrimRight.induct)
  case (1 s)
  show ?case
  proof (cases "trailingSpace s = 0")
    case True
    then show ?thesis by (subst TrimRight.simps) simp
  next
    case False
    have "set (TrimRight (take (length s - trailingSpace s) s))
          \<subseteq> set (take (length s - trailingSpace s) s)"
      using "1.IH"[OF False] .
    also have "\<dots> \<subseteq> set s" by (rule set_take_subset)
    finally show ?thesis using False by (subst TrimRight.simps) simp
  qed
qed

lemma set_TrimSpace: "set (TrimSpace s) \<subseteq> set s"
  unfolding TrimSpace_def using set_TrimRight set_TrimLeft by blast

lemma charCount_ascii:
  "\<forall>c \<in> set s. (of_char c :: nat) < 128 \<Longrightarrow> charCount s = length s"
  by (induction s) (auto simp: charCount_def isContinuation_def)

subsection \<open>More examples, evaluated\<close>




lemma ex_calls:
  "callOpenAI ex_world_201 ex_extractor ex_requestBody =
     (Inl (RemoteError 201 ''body''),
      [EvPost ''https://api.openai.com/v1/chat/completions'' ''request''])"
  "callOpenAI ex_world_unread ex_extractor ex_requestBody =
     (Inl (ReadResponseError ''unexpected EOF''),
      [EvPost ''https://api.openai.com/v1/chat/completions'' ''request''])"
  by code_simp+

section \<open>The default of the vision flag\<close>

text \<open>
  Claim C1 says that a configuration in which the caller does not set the vision flag
  is resolved with vision enabled, so that a vision-mode extraction does not fail with
  \<open>VisionDisabled\<close>. The code does otherwise, against its own documentation:
  \<open>defaultVisionEnabled\<close> is \<open>True\<close> and the field is documented with that default,
  but \<open>New\<close> never applies it. For the configuration that sets the API key only, the
  flag of the extractor is false, \<open>extractFromImages\<close> fails with \<open>VisionDisabled\<close>,
  and so does \<open>Extract\<close> on a document without enough text whose pages all render.
\<close>

theorem vision_default_not_applied:
  "New ex_config = Inr ex_extractor \<and>
   defaultVisionEnabled \<and>
   \<not> VisionEnabled (config ex_extractor) \<and>
   extractFromImages ex_world ex_extractor ex_images ex_schema ex_options =
     (Inl VisionDisabled, []) \<and>
   Extract ex_world_scan ex_extractor ex_options =
     (Inl VisionDisabled,
      [EvPDFInfo, EvNewFromMemory, EvText 0, EvText 1, EvText 2, EvClose,
       EvNewFromMemory, EvImage 0, EvImage 1, EvImage 2, EvClose])"
  using New_ex_config ex_Extract_scan_disabled
  by (simp add: defaultVisionEnabled_def ex_extractor_def extractFromImages_def)

section \<open>The source of the document\<close>





section \<open>The system message\<close>

text \<open>
  Claim C3 says that an extractor constructed with an empty system prompt sends no
  system message. \<open>New\<close> replaces the empty prompt by \<open>defaultSystemPrompt\<close>: for the
  configuration \<open>ex_config\<close>, whose prompt is empty, the text request and the vision
  request both carry the system message with the default prompt.
\<close>

theorem empty_SystemPrompt_counterexample:
  "SystemPrompt ex_config = [] \<and>
   New ex_config = Inr ex_extractor \<and>
   systemMessages (extractFromText_requestBody ex_extractor ''hello'' ex_schema ex_options) =
     [JObject [(''role'', JString ''system''), (''content'', JString defaultSystemPrompt)]] \<and>
   systemMessages (extractFromImages_requestBody ex_extractor ex_images ex_schema ex_options) =
     [JObject [(''role'', JString ''system''), (''content'', JString defaultSystemPrompt)]]"
  using New_ex_config defaultSystemPrompt_nonempty
  by (simp add: systemMessages_text systemMessages_images ex_config_def ex_extractor_def)

text \<open>
  Claim C3, amended. For every extractor that \<open>New\<close> returns, the text request and
  the vision request carry exactly one system message, which is the first message; its
  content is the configured system prompt, and \<open>defaultSystemPrompt\<close> when the
  configured prompt is empty. The
  two builders leave the system message out exactly when the \<open>systemPrompt\<close> field of
  the extractor is empty (here for any extractor value \<open>e'\<close>), which is never the case
  for an extractor returned by \<open>New\<close>.
\<close>

theorem system_message_resolved:
  "New c = Inr e \<Longrightarrow>
     systemMessages (extractFromText_requestBody e text schemaData options) =
       [JObject [(''role'', JString ''system''),
                 (''content'', JString (if SystemPrompt c = [] then defaultSystemPrompt
                                        else SystemPrompt c))]] \<and>
     systemMessages (extractFromImages_requestBody e images schemaData options) =
       [JObject [(''role'', JString ''system''),
                 (''content'', JString (if SystemPrompt c = [] then defaultSystemPrompt
                                        else SystemPrompt c))]] \<and>
     take 1 (messagesOf (extractFromText_requestBody e text schemaData options)) =
       systemMessages (extractFromText_requestBody e text schemaData options) \<and>
     take 1 (messagesOf (extractFromImages_requestBody e images schemaData options)) =
       systemMessages (extractFromImages_requestBody e images schemaData options) \<and>
     (systemMessages (extractFromText_requestBody e' text schemaData options) = []) =
       (systemPrompt e' = []) \<and>
     (systemMessages (extractFromImages_requestBody e' images schemaData options) = []) =
       (systemPrompt e' = [])"
proof -
  assume n: "New c = Inr e"
  obtain content where
    "messagesOf (extractFromImages_requestBody e images schemaData options) =
     (if systemPrompt e \<noteq> []
      then [JObject [(''role'', JString ''system''), (''content'', JString (systemPrompt e))]]
      else []) @
     [JObject [(''role'', JString ''user''), (''content'', JArray content)]]"
    using messagesOf_images by blast
  then show ?thesis
    using New_systemPrompt[OF n] defaultSystemPrompt_nonempty
    by (simp add: systemMessages_text systemMessages_images messagesOf_text)
qed


theorem system_message_resolved_witness:
  "New ex_config = Inr ex_extractor \<and>
   systemMessages (extractFromText_requestBody ex_extractor ''hello'' ex_schema ex_options) =
     [JObject [(''role'', JString ''system''), (''content'', JString defaultSystemPrompt)]] \<and>
   (systemMessages (extractFromText_requestBody (ex_extractor\<lparr>systemPrompt := []\<rparr>)
       ''hello'' ex_schema ex_options) = [])"
  using New_ex_config
    system_message_resolved[OF New_ex_config, of "''hello''" ex_schema ex_options ex_images
      "ex_extractor\<lparr>systemPrompt := []\<rparr>"]
  by (simp add: ex_config_def)


section \<open>Vision disabled\<close>

text \<open>
  Claim C4 says that with the vision flag false, \<open>Extract\<close> fails with
  \<open>VisionDisabled\<close> whenever the mode selection resolves to vision mode. The pages are
  converted to images after the mode selection and before the flag is tested, and a
  failure there is what \<open>Extract\<close> returns: in \<open>ex_world\<close> the text of the document is
  too short for text mode, no page renders, and \<open>Extract\<close> fails with the conversion
  error.
\<close>

theorem vision_disabled_counterexample:
  "\<not> VisionEnabled (config ex_extractor) \<and>
   fst (extractTextFromPdf ex_world ex_pdf) =
     Inr ([CHR ''a'', CHR 0x0A, CHR ''b'', CHR 0x0A], 3, []) \<and>
   \<not> hasExtractableText [CHR ''a'', CHR 0x0A, CHR ''b'', CHR 0x0A]
        (parseThreshold (Some \<lparr>TextThreshold_p = TextThreshold (config ex_extractor)\<rparr>)) \<and>
   Extract ex_world ex_extractor ex_options =
     (Inl (ParseError (ImageConversionError (RenderPageError 1 ''cannot render''))),
      [EvPDFInfo, EvNewFromMemory, EvText 0, EvText 1, EvText 2, EvClose,
       EvNewFromMemory, EvImage 0, EvClose]) \<and>
   fst (Extract ex_world ex_extractor ex_options) \<noteq> Inl VisionDisabled"
  using ex_text ex_mode_vision ex_Extract_render_fails
  by (simp add: ex_extractor_def)

text \<open>
  Claim C4, amended. Let the vision flag of the extractor be false, the request have a
  source and a valid schema. Then \<open>extractFromImages\<close> fails with \<open>VisionDisabled\<close>
  and an empty trace for any images: the flag is tested before a content block is built
  and before a request is sent. If the parse step returns content that is not text
  (vision mode was selected and every page was converted), \<open>Extract\<close> fails with
  \<open>VisionDisabled\<close>; if the parse step fails, \<open>Extract\<close> fails with that error. In
  both cases the trace of \<open>Extract\<close> is the trace of the parse step and holds no
  \<open>EvPost\<close>.
\<close>

theorem vision_disabled:
  assumes "\<not> VisionEnabled (config e)"
    and "\<not> (PDFPath options = [] \<and> PDFBuffer options = None)"
    and "ValidateSchema w (Schema options) = None"
  shows
    "extractFromImages w e images schemaData options' = (Inl VisionDisabled, []) \<and>
     (Extract_parse w e options = (Inr parsedPdf, tr) \<and> Type (Content parsedPdf) \<noteq> ''text'' \<longrightarrow>
        Extract w e options = (Inl VisionDisabled, tr) \<and> filter isPost tr = []) \<and>
     (Extract_parse w e options = (Inl err, tr) \<longrightarrow>
        Extract w e options = (Inl (ParseError err), tr) \<and> filter isPost tr = [])"
proof (intro conjI impI)
  show i: "extractFromImages w e images schemaData options' = (Inl VisionDisabled, [])"
    for images schemaData options'
    using assms(1) by (simp add: extractFromImages_def)
  {
    assume h: "Extract_parse w e options = (Inr parsedPdf, tr) \<and> Type (Content parsedPdf) \<noteq> ''text''"
    with assms(2,3) show "Extract w e options = (Inl VisionDisabled, tr)"
      by (auto simp: Extract_def i)
    from h show "filter isPost tr = []" by (auto dest: Extract_parse_postsD)
  }
  {
    assume h: "Extract_parse w e options = (Inl err, tr)"
    with assms(2,3) show "Extract w e options = (Inl (ParseError err), tr)"
      by (auto simp: Extract_def)
    from h show "filter isPost tr = []" by (auto dest: Extract_parse_postsD)
  }
qed

theorem vision_disabled_witness:
  "\<not> VisionEnabled (config ex_extractor) \<and>
   \<not> (PDFPath ex_options = [] \<and> PDFBuffer ex_options = None) \<and>
   ValidateSchema ex_world_scan (Schema ex_options) = None \<and>
   fst (Extract_parse ex_world_scan ex_extractor ex_options) =
     Inr \<lparr>Content = \<lparr>Type = ''images'', TextContent = [],
                      ImageContent = [\<lparr>Page = 1, Base64 = ''pixels''\<rparr>,
                                      \<lparr>Page = 2, Base64 = ''pixels''\<rparr>,
                                      \<lparr>Page = 3, Base64 = ''pixels''\<rparr>]\<rparr>,
           NumPages = 3, Info = []\<rparr> \<and>
   Extract ex_world_scan ex_extractor ex_options =
     (Inl VisionDisabled,
      [EvPDFInfo, EvNewFromMemory, EvText 0, EvText 1, EvText 2, EvClose,
       EvNewFromMemory, EvImage 0, EvImage 1, EvImage 2, EvClose]) \<and>
   ValidateSchema ex_world (Schema ex_options) = None \<and>
   fst (Extract_parse ex_world ex_extractor ex_options) =
     Inl (ImageConversionError (RenderPageError 1 ''cannot render'')) \<and>
   Extract ex_world ex_extractor ex_options =
     (Inl (ParseError (ImageConversionError (RenderPageError 1 ''cannot render''))),
      [EvPDFInfo, EvNewFromMemory, EvText 0, EvText 1, EvText 2, EvClose,
       EvNewFromMemory, EvImage 0, EvClose])"
proof -
  have a: "\<not> VisionEnabled (config ex_extractor)" by (simp add: ex_extractor_def)
  have b: "\<not> (PDFPath ex_options = [] \<and> PDFBuffer ex_options = None)"
    by (simp add: ex_options_def)
  have c: "ValidateSchema ex_world_scan (Schema ex_options) = None" by code_simp
  have d: "ValidateSchema ex_world (Schema ex_options) = None" by code_simp
  have scan: "Extract ex_world_scan ex_extractor ex_options =
     (Inl VisionDisabled,
      [EvPDFInfo, EvNewFromMemory, EvText 0, EvText 1, EvText 2, EvClose,
       EvNewFromMemory, EvImage 0, EvImage 1, EvImage 2, EvClose])"
    using ex_parse_scan
      vision_disabled[OF a b c, of ex_images ex_schema ex_options
        "\<lparr>Content = \<lparr>Type = ''images'', TextContent = [],
                      ImageContent = [\<lparr>Page = 1, Base64 = ''pixels''\<rparr>,
                                      \<lparr>Page = 2, Base64 = ''pixels''\<rparr>,
                                      \<lparr>Page = 3, Base64 = ''pixels''\<rparr>]\<rparr>,
           NumPages = 3, Info = []\<rparr>"
        "[EvPDFInfo, EvNewFromMemory, EvText 0, EvText 1, EvText 2, EvClose,
       EvNewFromMemory, EvImage 0, EvImage 1, EvImage 2, EvClose]"]
    by simp
  have fails: "Extract ex_world ex_extractor ex_options =
     (Inl (ParseError (ImageConversionError (RenderPageError 1 ''cannot render''))),
      [EvPDFInfo, EvNewFromMemory, EvText 0, EvText 1, EvText 2, EvClose,
       EvNewFromMemory, EvImage 0, EvClose])"
    using ex_parse_render_fails
      vision_disabled[OF a b d,
        where err = "ImageConversionError (RenderPageError 1 ''cannot render'')"
          and tr = "[EvPDFInfo, EvNewFromMemory, EvText 0, EvText 1, EvText 2, EvClose,
                     EvNewFromMemory, EvImage 0, EvClose]"]
    by simp
  show ?thesis
    using a b c d scan fails ex_parse_scan ex_parse_render_fails by simp
qed

section \<open>The mode selector\<close>

text \<open>
  Claim C5 says that the selector compares the number of characters of the trimmed
  text with the threshold. The code compares its length in bytes (\<^verbatim>\<open>len\<close>): fifty
  letters \<^verbatim>\<open>U+00E9\<close> are 50 characters and 100 bytes in UTF-8, fewer characters than
  the threshold 100, and the selector chooses text mode.
\<close>

theorem characters_counterexample:
  "charCount (TrimSpace ex_accents) = 50 \<and>
   length (TrimSpace ex_accents) = 100 \<and>
   hasExtractableText ex_accents 100"
  by code_simp

text \<open>
  Claim C5, amended. For every text and every positive threshold, \<open>hasExtractableText\<close>
  chooses text mode exactly when the text, with its leading and trailing white space
  removed, is at least \<open>threshold\<close> bytes long. A trimmed text of exactly \<open>threshold\<close>
  bytes is text mode; a shorter one, and one that is empty after trimming, is vision
  mode. For a text of ASCII characters the bytes are the characters. The parser follows
  the choice: for a buffer with the signature, it returns the extracted text as text
  content in the first case, and turns to the conversion to images in the second.
\<close>

theorem hasExtractableText_iff:
  "0 < threshold \<Longrightarrow>
     hasExtractableText extracted threshold =
       (threshold \<le> int (length (TrimSpace extracted))) \<and>
     ((\<forall>c \<in> set extracted. (of_char c :: nat) < 128) \<longrightarrow>
        hasExtractableText extracted threshold =
          (threshold \<le> int (charCount (TrimSpace extracted)))) \<and>
     (isValidPdfSignature buffer = Some True \<and> parseThreshold options = threshold \<and>
      fst (extractTextFromPdf w buffer) = Inr (extracted, numPages, info) \<longrightarrow>
        (threshold \<le> int (length (TrimSpace extracted)) \<longrightarrow>
           fst (ParsePdfFromBuffer w buffer options) =
             Inr \<lparr>Content = \<lparr>Type = ''text'', TextContent = extracted, ImageContent = []\<rparr>,
                  NumPages = numPages, Info = info\<rparr>) \<and>
        (int (length (TrimSpace extracted)) < threshold \<longrightarrow>
           fst (ParsePdfFromBuffer w buffer options) =
             (case fst (convertPdfToImages w buffer) of
                Inl err \<Rightarrow> Inl (ImageConversionError err)
              | Inr images \<Rightarrow>
                  Inr \<lparr>Content = \<lparr>Type = ''images'', TextContent = [], ImageContent = images\<rparr>,
                       NumPages = numPages, Info = info\<rparr>)))"
proof (intro conjI impI)
  assume pos: "0 < threshold"
  then show sel: "hasExtractableText extracted threshold =
      (threshold \<le> int (length (TrimSpace extracted)))"
    by (simp add: hasExtractableText_def TrimSpace_Nil)
  {
    assume "\<forall>c \<in> set extracted. (of_char c :: nat) < 128"
    then have "\<forall>c \<in> set (TrimSpace extracted). (of_char c :: nat) < 128"
      using set_TrimSpace[of extracted] by blast
    then have "charCount (TrimSpace extracted) = length (TrimSpace extracted)"
      by (rule charCount_ascii)
    with sel show "hasExtractableText extracted threshold =
          (threshold \<le> int (charCount (TrimSpace extracted)))" by simp
  }
  assume p: "isValidPdfSignature buffer = Some True \<and> parseThreshold options = threshold \<and>
      fst (extractTextFromPdf w buffer) = Inr (extracted, numPages, info)"
  then have d: "fst (ParsePdfFromBuffer w buffer options) =
     (if hasExtractableText extracted threshold
      then Inr \<lparr>Content = \<lparr>Type = ''text'', TextContent = extracted, ImageContent = []\<rparr>,
                NumPages = numPages, Info = info\<rparr>
      else (case fst (convertPdfToImages w buffer) of
              Inl err \<Rightarrow> Inl (ImageConversionError err)
            | Inr images \<Rightarrow>
                Inr \<lparr>Content = \<lparr>Type = ''images'', TextContent = [], ImageContent = images\<rparr>,
                     NumPages = numPages, Info = info\<rparr>))"
    using ParsePdfFromBuffer_decides[of buffer w extracted numPages info options] by simp
  {
    assume "threshold \<le> int (length (TrimSpace extracted))"
    with d sel show "fst (ParsePdfFromBuffer w buffer options) =
             Inr \<lparr>Content = \<lparr>Type = ''text'', TextContent = extracted, ImageContent = []\<rparr>,
                  NumPages = numPages, Info = info\<rparr>" by simp
  }
  {
    assume "int (length (TrimSpace extracted)) < threshold"
    with d sel show "fst (ParsePdfFromBuffer w buffer options) =
             (case fst (convertPdfToImages w buffer) of
                Inl err \<Rightarrow> Inl (ImageConversionError err)
              | Inr images \<Rightarrow>
                  Inr \<lparr>Content = \<lparr>Type = ''images'', TextContent = [], ImageContent = images\<rparr>,
                       NumPages = numPages, Info = info\<rparr>)" by simp
  }
qed

theorem hasExtractableText_iff_witness:
  "(0::int) < 3 \<and> hasExtractableText ''  abc  '' 3 \<and> \<not> hasExtractableText ''  abc  '' 4 \<and>
   \<not> hasExtractableText ''    '' 1 \<and>
   charCount (TrimSpace ''  abc  '') = 3 \<and>
   isValidPdfSignature ex_pdf = Some True \<and>
   parseThreshold (Some \<lparr>TextThreshold_p = 3\<rparr>) = 3 \<and>
   fst (extractTextFromPdf ex_world ex_pdf) =
     Inr ([CHR ''a'', CHR 0x0A, CHR ''b'', CHR 0x0A], 3, []) \<and>
   int (length (TrimSpace [CHR ''a'', CHR 0x0A, CHR ''b'', CHR 0x0A])) = 3 \<and>
   fst (ParsePdfFromBuffer ex_world ex_pdf (Some \<lparr>TextThreshold_p = 3\<rparr>)) =
     Inr \<lparr>Content = \<lparr>Type = ''text'',
                      TextContent = [CHR ''a'', CHR 0x0A, CHR ''b'', CHR 0x0A],
                      ImageContent = []\<rparr>,
          NumPages = 3, Info = []\<rparr>"
proof -
  have t: "TrimSpace ''  abc  '' = ''abc''" by code_simp
  have u: "TrimSpace ''    '' = []" by code_simp
  have v: "TrimSpace [CHR ''a'', CHR 0x0A, CHR ''b'', CHR 0x0A] = [CHR ''a'', CHR 0x0A, CHR ''b'']"
    by code_simp
  have cc: "charCount ''abc'' = 3" by code_simp
  have s: "isValidPdfSignature ex_pdf = Some True" by code_simp
  have p: "parseThreshold (Some \<lparr>TextThreshold_p = 3\<rparr>) = 3" by (simp add: parseThreshold_def)
  have h3: "(0::int) < 3" and h4: "(0::int) < 4" and h1: "(0::int) < 1" by simp_all
  show ?thesis
    using hasExtractableText_iff[OF h3, of "''  abc  ''", THEN conjunct1]
      hasExtractableText_iff[OF h4, of "''  abc  ''", THEN conjunct1]
      hasExtractableText_iff[OF h1, of "''    ''", THEN conjunct1]
      hasExtractableText_iff[OF h3, where extracted = "[CHR ''a'', CHR 0x0A, CHR ''b'', CHR 0x0A]"
        and buffer = ex_pdf and options = "Some \<lparr>TextThreshold_p = 3\<rparr>" and w = ex_world
        and numPages = 3 and info = "[]", THEN conjunct2, THEN conjunct2]
      ex_text s p
    by (simp add: t u v cc)
qed


section \<open>The signature gate\<close>

text \<open>
  Claim C6. The signature check never panics. For a buffer shorter than four bytes, or
  whose first four bytes are not \<^verbatim>\<open>%PDF\<close>, it reports invalid, \<open>ValidatePdf\<close>
  reports invalid, and \<open>ParsePdfFromBuffer\<close> fails with \<open>InvalidPdf\<close> with an empty
  trace, that is before any call of a PDF library. A buffer whose first four bytes are
  \<^verbatim>\<open>%PDF\<close> passes: the check reports valid and the parser does not fail with
  \<open>InvalidPdf\<close>.
\<close>

theorem signature_gate:
  "isValidPdfSignature buffer \<noteq> None \<and>
   (length buffer < 4 \<or> take 4 buffer \<noteq> ''%PDF'' \<longrightarrow>
      isValidPdfSignature buffer = Some False \<and>
      ValidatePdf w (BufferInput buffer) = (Some False, []) \<and>
      ParsePdfFromBuffer w buffer options = (Inl InvalidPdf, [])) \<and>
   (take 4 buffer = ''%PDF'' \<longrightarrow>
      isValidPdfSignature buffer = Some True \<and>
      fst (ValidatePdf w (BufferInput buffer)) = Some True \<and>
      fst (ParsePdfFromBuffer w buffer options) \<noteq> Inl InvalidPdf \<and>
      fst (ParsePdfFromBuffer w buffer options) \<noteq> Inl Panic)"
proof -
  have short: "length buffer < 4 \<Longrightarrow> take 4 buffer \<noteq> ''%PDF''"
    by (auto dest: arg_cong[where f = length])
  have long: "take 4 buffer = ''%PDF'' \<Longrightarrow> 4 \<le> length buffer"
    using short by fastforce
  show ?thesis
    using short long
    by (auto simp: isValidPdfSignature_eq ValidatePdf_def ParsePdfFromBuffer_def Let_def
        split: prod.splits sum.splits)
qed

theorem signature_gate_witness:
  "length ''NO'' < 4 \<and>
   isValidPdfSignature ''NO'' = Some False \<and>
   ParsePdfFromBuffer ex_world ''NO'' None = (Inl InvalidPdf, []) \<and>
   take 4 ''NOT A PDF'' \<noteq> ''%PDF'' \<and>
   ValidatePdf ex_world (BufferInput ''NOT A PDF'') = (Some False, []) \<and>
   ParsePdfFromBuffer ex_world ''NOT A PDF'' None = (Inl InvalidPdf, []) \<and>
   take 4 ex_pdf = ''%PDF'' \<and>
   isValidPdfSignature ex_pdf = Some True \<and>
   fst (ParsePdfFromBuffer ex_world ex_pdf None) \<noteq> Inl InvalidPdf"
  using signature_gate[of "''NO''" ex_world None]
    signature_gate[of "''NOT A PDF''" ex_world None]
    signature_gate[of ex_pdf ex_world None]
  by (simp add: ex_pdf_def)

section \<open>The completion client\<close>

text \<open>
  Claim C7 says that a response with a success status and a valid completion gives the
  parsed content, and that a response with another status gives \<open>RemoteError\<close> with
  the body. The success of the code is the status 200 alone, and the body is read
  before the status is tested: a 201 with a valid completion is a \<open>RemoteError\<close>, and
  a 500 whose body cannot be read is a read error.
\<close>

theorem completion_counterexample:
  "is2xx 201 \<and>
   json_Unmarshal_response ex_world_201 ''body'' =
     Inr \<lparr>Choices = [ex_content], Usage_TotalTokens = 42, Model_c = ''m1''\<rparr> \<and>
   ex_content \<noteq> [] \<and>
   json_Unmarshal_data ex_world_201 ex_content = Inr (Some [(''a'', JInt 1)]) \<and>
   callOpenAI ex_world_201 ex_extractor ex_requestBody =
     (Inl (RemoteError 201 ''body''),
      [EvPost ''https://api.openai.com/v1/chat/completions'' ''request'']) \<and>
   \<not> is2xx 500 \<and>
   callOpenAI ex_world_unread ex_extractor ex_requestBody =
     (Inl (ReadResponseError ''unexpected EOF''),
      [EvPost ''https://api.openai.com/v1/chat/completions'' ''request''])"
  using ex_calls
  by (simp add: is2xx_def ex_world_201_def ex_world_def ex_content_def)

text \<open>
  Claim C7, amended. Let \<open>callOpenAI\<close> have received a response \<open>resp\<close> (the request
  was marshalled, created and sent); exactly one \<open>EvPost\<close> was issued. If the body
  cannot be read, the call fails with the read error. Otherwise, with the body \<open>body\<close>:
  if the status is not \<open>StatusOK\<close>, which is 200, the call fails with \<open>RemoteError\<close>
  carrying the status code and the body; if it is 200 and \<^verbatim>\<open>json.Unmarshal\<close> of the
  body into the response struct fails, the call fails with that parse error; if the
  body decodes to \<open>response\<close>, then with no choice, or an empty content in the first
  choice, the call fails with \<open>EmptyCompletion\<close>; with a first content that
  \<^verbatim>\<open>json.Unmarshal\<close> does not decode into a map, it fails with
  \<open>MalformedCompletion\<close>; otherwise it returns the decoded map with the total token
  count and the model name of the response.
\<close>

theorem callOpenAI_response:
  assumes "json_Marshal w requestBody = Inr jsonData"
    and "http_NewRequest w (baseURL e @ ''/chat/completions'') = None"
    and "client_Do w \<lparr>req_Method = ''POST'', req_URL = baseURL e @ ''/chat/completions'',
                       req_ContentType = ''application/json'',
                       req_Authorization = ''Bearer '' @ apiKey e,
                       req_Body = jsonData\<rparr> = Inr resp"
  shows
    "StatusOK = 200 \<and>
     snd (callOpenAI w e requestBody) = [EvPost (baseURL e @ ''/chat/completions'') jsonData] \<and>
     (resp_Body resp = Inl readErr \<longrightarrow>
        fst (callOpenAI w e requestBody) = Inl (ReadResponseError readErr)) \<and>
     (resp_Body resp = Inr body \<longrightarrow>
        (StatusCode resp \<noteq> StatusOK \<longrightarrow>
           fst (callOpenAI w e requestBody) = Inl (RemoteError (StatusCode resp) body)) \<and>
        (StatusCode resp = StatusOK \<and> json_Unmarshal_response w body = Inl parseErr \<longrightarrow>
           fst (callOpenAI w e requestBody) = Inl (ParseResponseError parseErr)) \<and>
        (StatusCode resp = StatusOK \<and> json_Unmarshal_response w body = Inr response \<longrightarrow>
           (Choices response = [] \<or> (\<exists>cs. Choices response = [] # cs) \<longrightarrow>
              fst (callOpenAI w e requestBody) = Inl EmptyCompletion) \<and>
           (Choices response = c # cs \<and> c \<noteq> [] \<and> json_Unmarshal_data w c = Inl err \<longrightarrow>
              fst (callOpenAI w e requestBody) = Inl (MalformedCompletion err)) \<and>
           (Choices response = c # cs \<and> c \<noteq> [] \<and>
            json_Unmarshal_data w c = Inr extractedData \<longrightarrow>
              fst (callOpenAI w e requestBody) =
                Inr \<lparr>Data = extractedData, TokensUsed = Usage_TotalTokens response,
                     Model_r = Model_c response\<rparr>)))"
proof -
  have call: "callOpenAI w e requestBody =
      (handleResponse w resp, [EvPost (baseURL e @ ''/chat/completions'') jsonData])"
    using assms by (simp add: callOpenAI_def Let_def)
  show ?thesis
    by (auto simp: call handleResponse_def StatusOK_def)
qed

theorem callOpenAI_response_witness:
  "callOpenAI ex_world ex_extractor ex_requestBody =
     (Inr \<lparr>Data = Some [(''a'', JInt 1)], TokensUsed = 42, Model_r = ''m1''\<rparr>,
      [EvPost ''https://api.openai.com/v1/chat/completions'' ''request'']) \<and>
   callOpenAI ex_world_500 ex_extractor ex_requestBody =
     (Inl (RemoteError 500 ''overloaded''),
      [EvPost ''https://api.openai.com/v1/chat/completions'' ''request'']) \<and>
   callOpenAI ex_world_201 ex_extractor ex_requestBody =
     (Inl (RemoteError 201 ''body''),
      [EvPost ''https://api.openai.com/v1/chat/completions'' ''request'']) \<and>
   callOpenAI ex_world_unread ex_extractor ex_requestBody =
     (Inl (ReadResponseError ''unexpected EOF''),
      [EvPost ''https://api.openai.com/v1/chat/completions'' ''request'']) \<and>
   callOpenAI ex_world_envelope ex_extractor ex_requestBody =
     (Inl (ParseResponseError ''invalid character''),
      [EvPost ''https://api.openai.com/v1/chat/completions'' ''request'']) \<and>
   callOpenAI ex_world_empty ex_extractor ex_requestBody =
     (Inl EmptyCompletion,
      [EvPost ''https://api.openai.com/v1/chat/completions'' ''request'']) \<and>
   callOpenAI ex_world_malformed ex_extractor ex_requestBody =
     (Inl (MalformedCompletion ''unexpected end of JSON input''),
      [EvPost ''https://api.openai.com/v1/chat/completions'' ''request''])"
proof -
  let ?url = "''https://api.openai.com/v1/chat/completions''"
  let ?req = "\<lparr>req_Method = ''POST'', req_URL = baseURL ex_extractor @ ''/chat/completions'',
                req_ContentType = ''application/json'',
                req_Authorization = ''Bearer '' @ apiKey ex_extractor,
                req_Body = ''request''\<rparr>"
  let ?env = "\<lparr>Choices = [ex_content], Usage_TotalTokens = 42, Model_c = ''m1''\<rparr>"
  have url: "baseURL ex_extractor @ ''/chat/completions'' = ?url"
    by (simp add: ex_extractor_def defaultBaseURL_def)
  have nonempty: "ex_content \<noteq> []" by (simp add: ex_content_def)
  have ok: "StatusCode ex_response = StatusOK" "resp_Body ex_response = Inr ''body''"
    by (simp_all add: ex_response_def StatusOK_def)
  have m: "json_Marshal ex_world ex_requestBody = Inr ''request''"
    and r: "http_NewRequest ex_world (baseURL ex_extractor @ ''/chat/completions'') = None"
    and d: "client_Do ex_world ?req = Inr ex_response"
    by (simp_all add: ex_world_def)
  have 1: "callOpenAI ex_world ex_extractor ex_requestBody =
     (Inr \<lparr>Data = Some [(''a'', JInt 1)], TokensUsed = 42, Model_r = ''m1''\<rparr>,
      [EvPost ?url ''request''])"
    using callOpenAI_response[OF m r d, where body = "''body''" and response = ?env
        and c = ex_content and cs = "[]" and extractedData = "Some [(''a'', JInt 1)]"]
      nonempty ok
    by (simp add: ex_world_def url prod_eq_iff StatusOK_def)
  have m2: "json_Marshal ex_world_500 ex_requestBody = Inr ''request''"
    and r2: "http_NewRequest ex_world_500 (baseURL ex_extractor @ ''/chat/completions'') = None"
    and d2: "client_Do ex_world_500 ?req = Inr \<lparr>StatusCode = 500, resp_Body = Inr ''overloaded''\<rparr>"
    by (simp_all add: ex_world_500_def ex_world_def)
  have 2: "callOpenAI ex_world_500 ex_extractor ex_requestBody =
     (Inl (RemoteError 500 ''overloaded''), [EvPost ?url ''request''])"
    using callOpenAI_response[OF m2 r2 d2, where body = "''overloaded''"]
    by (simp add: url prod_eq_iff StatusOK_def)
  have m3: "json_Marshal ex_world_201 ex_requestBody = Inr ''request''"
    and r3: "http_NewRequest ex_world_201 (baseURL ex_extractor @ ''/chat/completions'') = None"
    and d3: "client_Do ex_world_201 ?req = Inr \<lparr>StatusCode = 201, resp_Body = Inr ''body''\<rparr>"
    by (simp_all add: ex_world_201_def ex_world_def)
  have 3: "callOpenAI ex_world_201 ex_extractor ex_requestBody =
     (Inl (RemoteError 201 ''body''), [EvPost ?url ''request''])"
    using callOpenAI_response[OF m3 r3 d3, where body = "''body''"]
    by (simp add: url prod_eq_iff StatusOK_def)
  have m4: "json_Marshal ex_world_unread ex_requestBody = Inr ''request''"
    and r4: "http_NewRequest ex_world_unread (baseURL ex_extractor @ ''/chat/completions'') = None"
    and d4: "client_Do ex_world_unread ?req =
               Inr \<lparr>StatusCode = 500, resp_Body = Inl ''unexpected EOF''\<rparr>"
    by (simp_all add: ex_world_unread_def ex_world_def)
  have 4: "callOpenAI ex_world_unread ex_extractor ex_requestBody =
     (Inl (ReadResponseError ''unexpected EOF''), [EvPost ?url ''request''])"
    using callOpenAI_response[OF m4 r4 d4, where readErr = "''unexpected EOF''"]
    by (simp add: url prod_eq_iff StatusOK_def)
  have m5: "json_Marshal ex_world_envelope ex_requestBody = Inr ''request''"
    and r5: "http_NewRequest ex_world_envelope (baseURL ex_extractor @ ''/chat/completions'') = None"
    and d5: "client_Do ex_world_envelope ?req = Inr ex_response"
    by (simp_all add: ex_world_envelope_def ex_world_def)
  have 5: "callOpenAI ex_world_envelope ex_extractor ex_requestBody =
     (Inl (ParseResponseError ''invalid character''), [EvPost ?url ''request''])"
    using callOpenAI_response[OF m5 r5 d5, where body = "''body''"
        and parseErr = "''invalid character''"] ok
    by (simp add: ex_world_envelope_def ex_world_def url prod_eq_iff StatusOK_def)
  have m6: "json_Marshal ex_world_empty ex_requestBody = Inr ''request''"
    and r6: "http_NewRequest ex_world_empty (baseURL ex_extractor @ ''/chat/completions'') = None"
    and d6: "client_Do ex_world_empty ?req = Inr ex_response"
    by (simp_all add: ex_world_empty_def ex_world_def)
  have 6: "callOpenAI ex_world_empty ex_extractor ex_requestBody =
     (Inl EmptyCompletion, [EvPost ?url ''request''])"
    using callOpenAI_response[OF m6 r6 d6, where body = "''body''"
        and response = "\<lparr>Choices = [], Usage_TotalTokens = 0, Model_c = ''m1''\<rparr>"] ok
    by (simp add: ex_world_empty_def ex_world_def url prod_eq_iff StatusOK_def)
  have m7: "json_Marshal ex_world_malformed ex_requestBody = Inr ''request''"
    and r7: "http_NewRequest ex_world_malformed (baseURL ex_extractor @ ''/chat/completions'') = None"
    and d7: "client_Do ex_world_malformed ?req = Inr ex_response"
    by (simp_all add: ex_world_malformed_def ex_world_def)
  have 7: "callOpenAI ex_world_malformed ex_extractor ex_requestBody =
     (Inl (MalformedCompletion ''unexpected end of JSON input''), [EvPost ?url ''request''])"
    using callOpenAI_response[OF m7 r7 d7, where body = "''body''" and response = ?env
        and c = ex_content and cs = "[]" and err = "''unexpected end of JSON input''"]
      nonempty ok
    by (simp add: ex_world_malformed_def ex_world_def url prod_eq_iff StatusOK_def)
  from 1 2 3 4 5 6 7 show ?thesis by simp
qed


section \<open>Model selection\<close>

text \<open>
  Claim C8. For every configuration that \<open>New\<close> accepts: when only \<^verbatim>\<open>Model\<close> is set,
  \<open>GetTextModel\<close> and \<open>GetVisionModel\<close> both return it; a \<^verbatim>\<open>TextModel\<close> that is set
  is what \<open>GetTextModel\<close> returns and a \<^verbatim>\<open>VisionModel\<close> that is set is what
  \<open>GetVisionModel\<close> returns; the mode whose own model is not set falls back to the
  default model of the extractor, which is \<^verbatim>\<open>Model\<close>, or \<open>defaultModel\<close> when
  \<^verbatim>\<open>Model\<close> is empty too.
\<close>

theorem model_fallback:
  "New c = Inr e \<Longrightarrow>
    (Model c \<noteq> [] \<and> TextModel c = [] \<and> VisionModel c = [] \<longrightarrow>
       GetTextModel e = Model c \<and> GetVisionModel e = Model c) \<and>
    (TextModel c \<noteq> [] \<longrightarrow> GetTextModel e = TextModel c) \<and>
    (VisionModel c \<noteq> [] \<longrightarrow> GetVisionModel e = VisionModel c) \<and>
    (TextModel c = [] \<longrightarrow> GetTextModel e = GetModel e) \<and>
    (VisionModel c = [] \<longrightarrow> GetVisionModel e = GetModel e) \<and>
    GetModel e = (if Model c = [] then defaultModel else Model c)"
  by (auto simp: New_def Let_def GetModel_def GetTextModel_def GetVisionModel_def
      split: if_splits)

theorem model_fallback_witness:
  "(\<exists>e. New ex_config_model = Inr e \<and>
        GetTextModel e = ''gpt-4o'' \<and> GetVisionModel e = ''gpt-4o'') \<and>
   (\<exists>e. New ex_config_text = Inr e \<and>
        GetTextModel e = ''gpt-4o-mini'' \<and> GetVisionModel e = ''gpt-4o'')"
proof
  obtain e where e: "New ex_config_model = Inr e"
    by (simp add: New_def ex_config_model_def ex_config_def Let_def)
  from model_fallback[OF e]
  have "GetTextModel e = ''gpt-4o'' \<and> GetVisionModel e = ''gpt-4o''"
    by (simp add: ex_config_model_def ex_config_def)
  with e show "\<exists>e. New ex_config_model = Inr e \<and>
        GetTextModel e = ''gpt-4o'' \<and> GetVisionModel e = ''gpt-4o''" by blast
next
  obtain e where e: "New ex_config_text = Inr e"
    by (simp add: New_def ex_config_text_def ex_config_def Let_def)
  from model_fallback[OF e]
  have "GetTextModel e = ''gpt-4o-mini'' \<and> GetVisionModel e = ''gpt-4o''"
    by (simp add: ex_config_text_def ex_config_def)
  with e show "\<exists>e. New ex_config_text = Inr e \<and>
        GetTextModel e = ''gpt-4o-mini'' \<and> GetVisionModel e = ''gpt-4o''" by blast
qed

section \<open>The extracted text\<close>




section \<open>The effective threshold\<close>

text \<open>
  Claim C10. Parse options whose threshold is zero or negative give the threshold 100:
  the parser then behaves as it does for the threshold 100, and for a buffer with the
  signature it returns text content exactly when \<open>hasExtractableText\<close> holds of the
  extracted text and 100, so the value is neither rejected nor applied. A configuration
  whose threshold is zero is resolved to 100 by \<open>New\<close>; a negative one is kept in the
  configuration, and the parse step of \<open>Extract\<close> still decides with 100.
\<close>

theorem threshold_default:
  "(TextThreshold_p po \<le> 0 \<longrightarrow>
      parseThreshold (Some po) = 100 \<and>
      ParsePdfFromBuffer w buffer (Some po) =
        ParsePdfFromBuffer w buffer (Some \<lparr>TextThreshold_p = 100\<rparr>) \<and>
      (isValidPdfSignature buffer = Some True \<and>
       fst (extractTextFromPdf w buffer) = Inr (extracted, numPages, info) \<longrightarrow>
         fst (ParsePdfFromBuffer w buffer (Some po)) =
           (if hasExtractableText extracted 100
            then Inr \<lparr>Content = \<lparr>Type = ''text'', TextContent = extracted, ImageContent = []\<rparr>,
                      NumPages = numPages, Info = info\<rparr>
            else (case fst (convertPdfToImages w buffer) of
                    Inl err \<Rightarrow> Inl (ImageConversionError err)
                  | Inr images \<Rightarrow>
                      Inr \<lparr>Content = \<lparr>Type = ''images'', TextContent = [],
                                       ImageContent = images\<rparr>,
                           NumPages = numPages, Info = info\<rparr>)))) \<and>
   (New c = Inr e \<and> TextThreshold c = 0 \<longrightarrow> TextThreshold (config e) = 100) \<and>
   (New c = Inr e \<and> TextThreshold c < 0 \<longrightarrow> TextThreshold (config e) = TextThreshold c) \<and>
   (New c = Inr e \<and> TextThreshold c \<le> 0 \<longrightarrow>
      parseThreshold (Some \<lparr>TextThreshold_p = TextThreshold (config e)\<rparr>) = 100 \<and>
      Extract_parse w e options =
        Extract_parse w (e\<lparr>config := (config e)\<lparr>TextThreshold := 100\<rparr>\<rparr>) options \<and>
      (PDFPath options = [] \<and> sliceBytes (PDFBuffer options) = buffer \<and>
       isValidPdfSignature buffer = Some True \<and>
       fst (extractTextFromPdf w buffer) = Inr (extracted, numPages, info) \<longrightarrow>
         fst (Extract_parse w e options) =
           (if hasExtractableText extracted 100
            then Inr \<lparr>Content = \<lparr>Type = ''text'', TextContent = extracted, ImageContent = []\<rparr>,
                      NumPages = numPages, Info = info\<rparr>
            else (case fst (convertPdfToImages w buffer) of
                    Inl err \<Rightarrow> Inl (ImageConversionError err)
                  | Inr images \<Rightarrow>
                      Inr \<lparr>Content = \<lparr>Type = ''images'', TextContent = [],
                                       ImageContent = images\<rparr>,
                           NumPages = numPages, Info = info\<rparr>))))"
proof (intro conjI impI)
  assume h: "TextThreshold_p po \<le> 0"
  then show p: "parseThreshold (Some po) = 100" by (rule parseThreshold_nonpositive)
  from h show "ParsePdfFromBuffer w buffer (Some po) =
        ParsePdfFromBuffer w buffer (Some \<lparr>TextThreshold_p = 100\<rparr>)"
    by (intro ParsePdfFromBuffer_cong) (simp add: parseThreshold_nonpositive parseThreshold_100)
  assume "isValidPdfSignature buffer = Some True \<and>
       fst (extractTextFromPdf w buffer) = Inr (extracted, numPages, info)"
  then show "fst (ParsePdfFromBuffer w buffer (Some po)) =
           (if hasExtractableText extracted 100
            then Inr \<lparr>Content = \<lparr>Type = ''text'', TextContent = extracted, ImageContent = []\<rparr>,
                      NumPages = numPages, Info = info\<rparr>
            else (case fst (convertPdfToImages w buffer) of
                    Inl err \<Rightarrow> Inl (ImageConversionError err)
                  | Inr images \<Rightarrow>
                      Inr \<lparr>Content = \<lparr>Type = ''images'', TextContent = [],
                                       ImageContent = images\<rparr>,
                           NumPages = numPages, Info = info\<rparr>))"
    using ParsePdfFromBuffer_decides[of buffer w extracted numPages info "Some po"] p by simp
next
  assume "New c = Inr e \<and> TextThreshold c = 0"
  then show "TextThreshold (config e) = 100" using New_TextThreshold[of c e] by simp
next
  assume "New c = Inr e \<and> TextThreshold c < 0"
  then show "TextThreshold (config e) = TextThreshold c"
    using New_TextThreshold[of c e] by simp
next
  assume h: "New c = Inr e \<and> TextThreshold c \<le> 0"
  then show p: "parseThreshold (Some \<lparr>TextThreshold_p = TextThreshold (config e)\<rparr>) = 100"
    using New_threshold_nonpositive by blast
  show "Extract_parse w e options =
        Extract_parse w (e\<lparr>config := (config e)\<lparr>TextThreshold := 100\<rparr>\<rparr>) options"
    by (rule Extract_parse_cong) (simp add: p parseThreshold_100)
  assume b: "PDFPath options = [] \<and> sliceBytes (PDFBuffer options) = buffer \<and>
       isValidPdfSignature buffer = Some True \<and>
       fst (extractTextFromPdf w buffer) = Inr (extracted, numPages, info)"
  then have "Extract_parse w e options =
      ParsePdfFromBuffer w buffer (Some \<lparr>TextThreshold_p = TextThreshold (config e)\<rparr>)"
    by (simp add: Extract_parse_def)
  then show "fst (Extract_parse w e options) =
           (if hasExtractableText extracted 100
            then Inr \<lparr>Content = \<lparr>Type = ''text'', TextContent = extracted, ImageContent = []\<rparr>,
                      NumPages = numPages, Info = info\<rparr>
            else (case fst (convertPdfToImages w buffer) of
                    Inl err \<Rightarrow> Inl (ImageConversionError err)
                  | Inr images \<Rightarrow>
                      Inr \<lparr>Content = \<lparr>Type = ''images'', TextContent = [],
                                       ImageContent = images\<rparr>,
                           NumPages = numPages, Info = info\<rparr>))"
    using ParsePdfFromBuffer_decides[of buffer w extracted numPages info
        "Some \<lparr>TextThreshold_p = TextThreshold (config e)\<rparr>"] p b
    by simp
qed

theorem threshold_default_witness:
  "TextThreshold_p \<lparr>TextThreshold_p = - 5\<rparr> \<le> 0 \<and>
   parseThreshold (Some \<lparr>TextThreshold_p = - 5\<rparr>) = 100 \<and>
   isValidPdfSignature ex_pdf = Some True \<and>
   fst (extractTextFromPdf ex_world_long ex_pdf) = Inr (ex_long_text, 3, []) \<and>
   hasExtractableText ex_long_text 100 \<and>
   fst (ParsePdfFromBuffer ex_world_long ex_pdf (Some \<lparr>TextThreshold_p = - 5\<rparr>)) =
     Inr \<lparr>Content = \<lparr>Type = ''text'', TextContent = ex_long_text, ImageContent = []\<rparr>,
          NumPages = 3, Info = []\<rparr> \<and>
   fst (extractTextFromPdf ex_world ex_pdf) =
     Inr ([CHR ''a'', CHR 0x0A, CHR ''b'', CHR 0x0A], 3, []) \<and>
   hasExtractableText [CHR ''a'', CHR 0x0A, CHR ''b'', CHR 0x0A] (- 5) \<and>
   \<not> hasExtractableText [CHR ''a'', CHR 0x0A, CHR ''b'', CHR 0x0A] 100 \<and>
   fst (ParsePdfFromBuffer ex_world ex_pdf (Some \<lparr>TextThreshold_p = - 5\<rparr>)) =
     Inl (ImageConversionError (RenderPageError 1 ''cannot render'')) \<and>
   New ex_config = Inr ex_extractor \<and> TextThreshold ex_config = 0 \<and>
   TextThreshold (config ex_extractor) = 100 \<and>
   (\<exists>e. New ex_config_negative = Inr e \<and> TextThreshold ex_config_negative < 0 \<and>
        TextThreshold (config e) = - 5 \<and>
        parseThreshold (Some \<lparr>TextThreshold_p = TextThreshold (config e)\<rparr>) = 100 \<and>
        fst (Extract_parse ex_world_long e ex_options) =
          Inr \<lparr>Content = \<lparr>Type = ''text'', TextContent = ex_long_text, ImageContent = []\<rparr>,
               NumPages = 3, Info = []\<rparr>)"
proof -
  let ?po = "\<lparr>TextThreshold_p = - 5\<rparr>"
  have a: "TextThreshold_p ?po \<le> 0" by simp
  have s: "isValidPdfSignature ex_pdf = Some True" by code_simp
  have n: "TextThreshold ex_config_negative = - 5" "TextThreshold ex_config = 0"
    by (simp_all add: ex_config_negative_def ex_config_def)
  have o: "PDFPath ex_options = [] \<and> sliceBytes (PDFBuffer ex_options) = ex_pdf \<and>
       isValidPdfSignature ex_pdf = Some True \<and>
       fst (extractTextFromPdf ex_world_long ex_pdf) = Inr (ex_long_text, 3, [])"
    using s ex_long_facts(1) by (simp add: ex_options_def sliceBytes_def)
  have p: "parseThreshold (Some ?po) = 100"
    using threshold_default[where po = ?po, THEN conjunct1, rule_format, OF a] by blast
  have long: "fst (ParsePdfFromBuffer ex_world_long ex_pdf (Some ?po)) =
     Inr \<lparr>Content = \<lparr>Type = ''text'', TextContent = ex_long_text, ImageContent = []\<rparr>,
          NumPages = 3, Info = []\<rparr>"
    using threshold_default[where po = ?po and w = ex_world_long and buffer = ex_pdf,
        THEN conjunct1, rule_format, OF a, THEN conjunct2, THEN conjunct2, rule_format,
        OF conjI[OF s ex_long_facts(1)]] ex_long_facts(2)
    by simp
  have short: "fst (ParsePdfFromBuffer ex_world ex_pdf (Some ?po)) =
     Inl (ImageConversionError (RenderPageError 1 ''cannot render''))"
    using threshold_default[where po = ?po and w = ex_world and buffer = ex_pdf,
        THEN conjunct1, rule_format, OF a, THEN conjunct2, THEN conjunct2, rule_format,
        OF conjI[OF s arg_cong[OF ex_text, of fst, simplified]]] ex_long_facts(3,5)
    by simp
  have zero: "TextThreshold (config ex_extractor) = 100"
    using threshold_default[where c = ex_config and e = ex_extractor,
        THEN conjunct2, THEN conjunct1, rule_format, OF conjI[OF New_ex_config n(2)]] .
  obtain e where e: "New ex_config_negative = Inr e"
    by (simp add: New_def ex_config_negative_def ex_config_def Let_def)
  have lt: "New ex_config_negative = Inr e \<and> TextThreshold ex_config_negative < 0"
    and le: "New ex_config_negative = Inr e \<and> TextThreshold ex_config_negative \<le> 0"
    using e n by simp_all
  have kept: "TextThreshold (config e) = - 5"
    using threshold_default[where c = ex_config_negative and e = e,
        THEN conjunct2, THEN conjunct2, THEN conjunct1, rule_format, OF lt] n by simp
  note last = threshold_default[where c = ex_config_negative and e = e and w = ex_world_long
        and options = ex_options and buffer = ex_pdf,
        THEN conjunct2, THEN conjunct2, THEN conjunct2, rule_format, OF le]
  have eff: "parseThreshold (Some \<lparr>TextThreshold_p = TextThreshold (config e)\<rparr>) = 100"
    using last by blast
  have mode: "fst (Extract_parse ex_world_long e ex_options) =
          Inr \<lparr>Content = \<lparr>Type = ''text'', TextContent = ex_long_text, ImageContent = []\<rparr>,
               NumPages = 3, Info = []\<rparr>"
    using last[THEN conjunct2, THEN conjunct2, rule_format, OF o] ex_long_facts(2) by simp
  from e n kept eff mode
  have ex: "\<exists>e. New ex_config_negative = Inr e \<and> TextThreshold ex_config_negative < 0 \<and>
        TextThreshold (config e) = - 5 \<and>
        parseThreshold (Some \<lparr>TextThreshold_p = TextThreshold (config e)\<rparr>) = 100 \<and>
        fst (Extract_parse ex_world_long e ex_options) =
          Inr \<lparr>Content = \<lparr>Type = ''text'', TextContent = ex_long_text, ImageContent = []\<rparr>,
               NumPages = 3, Info = []\<rparr>"
    by auto
  show ?thesis
    using s p long short zero ex New_ex_config n ex_long_facts ex_text by simp
qed


end
